theory Spec2Isabelle
  imports Complex_Main "HOL-Library.Char_ord" "HOL-Library.List_Lexorder" "HOL-Library.AList"
begin

section \<open>Python values and errors\<close>

text \<open>
  Exceptions of the Python source are values: every function that can raise returns
  \<open>py_error + 'a\<close>, with \<open>Inl\<close> for the exception.  Python floats are
  modelled by exact reals; \<open>pyfloat\<close> adds the not-a-number value where the
  source produces it.
\<close>

datatype py_error =
    IndexError
  | KeyError
  | ValueError
  | TypeError
  | AttributeError
  | AssertionError
  | OverflowError
  | UnboundLocalError
  | ZeroDivisionError
  | Exception string

datatype pyfloat = Fin real | NaN

text \<open>\<open>int(x)\<close> on a float truncates towards zero.\<close>

definition py_int :: "real \<Rightarrow> int" where
  "py_int x = (if 0 \<le> x then \<lfloor>x\<rfloor> else \<lceil>x\<rceil>)"

text \<open>
  \<open>round(x, ndigits)\<close> rounds to the nearest multiple of \<open>10 ^ (- ndigits)\<close>, a tie
  going to the even neighbour.
\<close>

definition round_half_even :: "real \<Rightarrow> int" where
  "round_half_even x =
     (let f = \<lfloor>x\<rfloor>; d = x - of_int f
      in if d < 1 / 2 then f
         else if 1 / 2 < d then f + 1
         else if even f then f else f + 1)"

definition py_round :: "real \<Rightarrow> nat \<Rightarrow> real" where
  "py_round x ndigits = of_int (round_half_even (x * 10 ^ ndigits)) / 10 ^ ndigits"

text \<open>\<open>round\<close> of a not-a-number is a not-a-number.\<close>

fun py_round_f :: "pyfloat \<Rightarrow> nat \<Rightarrow> pyfloat" where
  "py_round_f NaN ndigits = NaN"
| "py_round_f (Fin x) ndigits = Fin (py_round x ndigits)"

section \<open>structures/FlakeClass.py\<close>

text \<open>
  A two-dimensional array is its shape and the truth value of each entry
  (\<open>np.any\<close> and \<open>np.where\<close> only look at whether an entry is non-zero).
\<close>

record ndarray2 =
  shape0 :: nat
  shape1 :: nat
  item :: "nat \<Rightarrow> nat \<Rightarrow> bool"

record flake =
  mask :: ndarray2
  thickness :: string
  size_px :: int
  mean_contrast :: "real list"
  center :: "real list"
  max_sidelength :: int
  min_sidelength :: int
  aspect_ratio :: real
  false_positive_probability :: real
  entropy :: real

text \<open>\<open>Flake.__init__\<close>: every field is stored as given, the aspect ratio is derived.\<close>

definition Flake_init ::
  "ndarray2 \<Rightarrow> string \<Rightarrow> int \<Rightarrow> real list \<Rightarrow> real list \<Rightarrow> int \<Rightarrow> int \<Rightarrow> real \<Rightarrow> real \<Rightarrow> flake"
where
  "Flake_init mask' thickness' size' mean_contrast' center' max_sidelength' min_sidelength'
      false_positive_probability' entropy' =
     \<lparr> mask = mask',
       thickness = thickness',
       size_px = size',
       mean_contrast = mean_contrast',
       center = center',
       max_sidelength = max_sidelength',
       min_sidelength = min_sidelength',
       aspect_ratio =
         py_round (of_int max_sidelength' / (of_int min_sidelength' + 1 / 100000)) 1,
       false_positive_probability = false_positive_probability',
       entropy = entropy' \<rparr>"

text \<open>The dictionary built by \<open>to_dict\<close>; the key \<open>bbox\<close> is optional.\<close>

record 'rle flake_dict =
  d_mask :: 'rle
  d_thickness :: int
  d_size :: int
  d_mean_contrast :: "int list"
  d_center :: "int list"
  d_max_sidelength :: int
  d_min_sidelength :: int
  d_aspect_ratio :: real
  d_false_positive_probability :: real
  d_entropy :: real
  d_bbox :: "int list option"

text \<open>\<open>np.any(mask, axis=1)\<close>: one entry per row; \<open>axis=0\<close>: one entry per column.\<close>

definition np_any_axis1 :: "ndarray2 \<Rightarrow> bool list" where
  "np_any_axis1 m = map (\<lambda>i. list_ex (\<lambda>j. item m i j) [0..<shape1 m]) [0..<shape0 m]"

definition np_any_axis0 :: "ndarray2 \<Rightarrow> bool list" where
  "np_any_axis0 m = map (\<lambda>j. list_ex (\<lambda>i. item m i j) [0..<shape0 m]) [0..<shape1 m]"

text \<open>\<open>np.where(v)[0]\<close>: the indices of the true entries, ascending.\<close>

definition np_where :: "bool list \<Rightarrow> nat list" where
  "np_where v = filter (\<lambda>i. v ! i) [0..<length v]"

text \<open>\<open>a[[0, -1]]\<close>: the first and the last entry; an empty array has neither.\<close>

definition first_last :: "nat list \<Rightarrow> py_error + nat \<times> nat" where
  "first_last a = (if a = [] then Inl IndexError else Inr (hd a, last a))"

text \<open>The lookup \<open>t[i]\<close> in a tuple.\<close>

definition tuple_get :: "'a list \<Rightarrow> nat \<Rightarrow> py_error + 'a" where
  "tuple_get t i = (if i < length t then Inr (t ! i) else Inl IndexError)"

text \<open>
  The part of \<open>to_dict\<close> under \<open>if return_bbox\<close>: the list stored under \<open>bbox\<close>.
\<close>

definition mask_bbox :: "ndarray2 \<Rightarrow> py_error + int list" where
  "mask_bbox m =
     (let rows = np_any_axis1 m; cols = np_any_axis0 m
      in case first_last (np_where rows) of
           Inl e \<Rightarrow> Inl e
         | Inr (rmin, rmax) \<Rightarrow>
             (case first_last (np_where cols) of
                Inl e \<Rightarrow> Inl e
              | Inr (cmin, cmax) \<Rightarrow>
                  Inr [int cmin, int rmin, int cmax - int cmin, int rmax - int rmin]))"

text \<open>
  \<open>Flake.to_dict\<close>.  The run-length encoder of pycocotools and Python's \<open>int\<close> on
  a string are parameters (\<open>None\<close> of the latter is its \<open>ValueError\<close>).  The
  entries of the dictionary are evaluated in the order of the source, so the first
  failing one decides the exception.
\<close>

definition to_dict ::
  "(ndarray2 \<Rightarrow> py_error + 'rle) \<Rightarrow> (string \<Rightarrow> int option) \<Rightarrow> flake \<Rightarrow> bool
     \<Rightarrow> py_error + 'rle flake_dict"
where
  "to_dict encode int_of_str self return_bbox =
     (case encode (mask self) of
        Inl e \<Rightarrow> Inl e
      | Inr rle \<Rightarrow>
     (case int_of_str (thickness self) of
        None \<Rightarrow> Inl ValueError
      | Some th \<Rightarrow>
     (case tuple_get (center self) 0 of
        Inl e \<Rightarrow> Inl e
      | Inr c0 \<Rightarrow>
     (case tuple_get (center self) 1 of
        Inl e \<Rightarrow> Inl e
      | Inr c1 \<Rightarrow>
     (let temp_dict =
            \<lparr> d_mask = rle,
              d_thickness = th,
              d_size = size_px self,
              d_mean_contrast = map py_int (mean_contrast self),
              d_center = [py_int c0, py_int c1],
              d_max_sidelength = max_sidelength self,
              d_min_sidelength = min_sidelength self,
              d_aspect_ratio = aspect_ratio self,
              d_false_positive_probability = false_positive_probability self,
              d_entropy = entropy self,
              d_bbox = None \<rparr>
      in if return_bbox
         then (case mask_bbox (mask self) of
                 Inl e \<Rightarrow> Inl e
               | Inr b \<Rightarrow> Inr (temp_dict\<lparr>d_bbox := Some b\<rparr>))
         else Inr temp_dict)))))"

section \<open>utils/evaluator.py: FlakeParams\<close>

text \<open>
  The names of the source are kept; a leading underscore, which an Isabelle name cannot
  have, is dropped.
\<close>

record flake_params =
  imgIds :: "int list"
  catIds :: "int list"
  iouThrs :: "real list"
  recThrs :: "real list"
  maxDets :: "int list"
  areaRng :: "(real \<times> real) list"
  areaRngLbl :: "string list"
  useCats :: int
  iouType :: string
  useSegm :: "unit option"

text \<open>\<open>np.linspace(start, stop, num, endpoint=True)\<close>.\<close>

definition linspace :: "real \<Rightarrow> real \<Rightarrow> nat \<Rightarrow> real list" where
  "linspace start stop num =
     map (\<lambda>i. start + real i * ((stop - start) / real (num - 1))) [0..<num]"

definition conversion_factor :: real where
  "conversion_factor = 1 / (0.3844 ^ 2)"

definition setDetParams :: "flake_params \<Rightarrow> flake_params" where
  "setDetParams self =
     self\<lparr> imgIds := [],
           catIds := [],
           iouThrs := linspace 0.5 0.95 (nat (round_half_even ((0.95 - 0.5) / 0.05)) + 1),
           recThrs := linspace 0.0 1.00 (nat (round_half_even ((1.00 - 0.0) / 0.01)) + 1),
           maxDets := [1, 10, 100],
           areaRng :=
             [ (0, 10 ^ 10),
               (0, of_int (py_int (100 * conversion_factor))),
               (of_int (py_int (100 * conversion_factor)),
                of_int (py_int (200 * conversion_factor))),
               (of_int (py_int (200 * conversion_factor)),
                of_int (py_int (400 * conversion_factor))),
               (of_int (py_int (400 * conversion_factor)), 10 ^ 10) ],
           areaRngLbl := [''all'', ''0-100'', ''100-200'', ''200-400'', ''400-inf''],
           useCats := 1 \<rparr>"

text \<open>An object none of whose attributes is set yet.\<close>

definition new_params :: flake_params where
  "new_params =
     \<lparr> imgIds = [], catIds = [], iouThrs = [], recThrs = [], maxDets = [], areaRng = [],
       areaRngLbl = [], useCats = 0, iouType = [], useSegm = None \<rparr>"

text \<open>
  \<open>FlakeParams.__init__\<close>.  The class defines \<open>setDetParams\<close> and \<open>__init__\<close>
  only and has no base class, so the call \<open>self.setKpParams()\<close> of the
  \<open>keypoints\<close> branch fails with an \<open>AttributeError\<close>.
\<close>

definition FlakeParams_init :: "string \<Rightarrow> py_error + flake_params" where
  "FlakeParams_init iouType' =
     (if iouType' = ''segm'' \<or> iouType' = ''bbox''
      then Inr ((setDetParams new_params)\<lparr>iouType := iouType', useSegm := None\<rparr>)
      else if iouType' = ''keypoints''
      then Inl AttributeError
      else Inl (Exception ''iouType not supported''))"

section \<open>utils/evaluator.py: FlakeCOCOeval\<close>

text \<open>
  The accumulated evaluation \<open>self.eval\<close>: the precision array of shape
  \<open>[T, R, K, A, M]\<close> and the recall array of shape \<open>[T, K, A, M]\<close>
  (IoU thresholds, recall thresholds, categories, area ranges, detection limits).
\<close>

record coco_eval_data =
  nT :: nat
  nR :: nat
  nK :: nat
  nA :: nat
  nM :: nat
  precision :: "nat \<Rightarrow> nat \<Rightarrow> nat \<Rightarrow> nat \<Rightarrow> nat \<Rightarrow> real"
  recall :: "nat \<Rightarrow> nat \<Rightarrow> nat \<Rightarrow> nat \<Rightarrow> real"

text \<open>
  The ground truth \<open>COCO(json_file)\<close> of pycocotools, as far as this file uses it.
  \<open>loadRes\<close> builds the detections object; \<open>first_ann_keypoints\<close> is the
  number of entries of \<open>next(iter(coco_gt.anns.values()))["keypoints"]\<close>.
\<close>

record coco_result =
  image_id :: int
  category_id :: int
  bbox :: "real list option"
  score :: real
  segmentation :: "string option"
  keypoints :: "real list option"

record 'dt coco_api =
  has_annotations :: bool
  getImgIds :: "int list"
  getCatIds :: "int list"
  loadRes :: "coco_result list \<Rightarrow> py_error + 'dt"
  first_ann_keypoints :: "py_error + nat"

record 'dt flake_cocoeval =
  cocoGt :: "'dt coco_api option"
  cocoDt :: "'dt option"
  params :: flake_params
  eval :: "coco_eval_data option"
  stats :: "real list"

text \<open>\<open>FlakeCOCOeval.__init__\<close>; the empty dictionary \<open>self.eval = {}\<close> is \<open>None\<close>.\<close>

definition FlakeCOCOeval_init ::
  "'dt coco_api option \<Rightarrow> 'dt option \<Rightarrow> string \<Rightarrow> py_error + 'dt flake_cocoeval"
where
  "FlakeCOCOeval_init cocoGt' cocoDt' iouType' =
     (case FlakeParams_init iouType' of
        Inl e \<Rightarrow> Inl e
      | Inr p \<Rightarrow>
          Inr \<lparr> cocoGt = cocoGt',
                cocoDt = cocoDt',
                params = (case cocoGt' of
                            None \<Rightarrow> p
                          | Some gt \<Rightarrow> p\<lparr>imgIds := sort (getImgIds gt),
                                          catIds := sort (getCatIds gt)\<rparr>),
                eval = None,
                stats = [] \<rparr>)"

text \<open>\<open>[i for i, x in enumerate(xs) if x == y]\<close> and \<open>np.where(y == xs)[0]\<close>.\<close>

definition indices_of :: "'a \<Rightarrow> 'a list \<Rightarrow> nat list" where
  "indices_of y xs = filter (\<lambda>i. xs ! i = y) [0..<length xs]"

text \<open>
  Two index lists in one subscript are broadcast against each other; a shape
  mismatch is an \<open>IndexError\<close>.
\<close>

definition broadcast_pairs :: "nat list \<Rightarrow> nat list \<Rightarrow> py_error + (nat \<times> nat) list" where
  "broadcast_pairs xs ys =
     (if length xs = length ys then Inr (zip xs ys)
      else if length xs = 1 then Inr (map (\<lambda>y. (hd xs, y)) ys)
      else if length ys = 1 then Inr (map (\<lambda>x. (x, hd ys)) xs)
      else Inl IndexError)"

text \<open>\<open>np.mean\<close> of a non-empty array.\<close>

definition np_mean :: "real list \<Rightarrow> real" where
  "np_mean xs = sum_list xs / real (length xs)"

text \<open>
  The entries \<open>_summarize\<close> selects: \<open>s[t]\<close> when a threshold is given, then
  \<open>s[:, :, :, aind, mind]\<close> (precision) or \<open>s[:, :, aind, mind]\<close> (recall).
\<close>

definition summarize_selection ::
  "flake_params \<Rightarrow> coco_eval_data \<Rightarrow> bool \<Rightarrow> real option \<Rightarrow> string \<Rightarrow> int
     \<Rightarrow> py_error + real list"
where
  "summarize_selection p ev ap iouThr areaRng' maxDets' =
     (if iouThr = None \<and> iouThrs p = [] then Inl IndexError
      else
        let aind = indices_of areaRng' (areaRngLbl p);
            mind = indices_of maxDets' (maxDets p);
            ts = (case iouThr of
                    None \<Rightarrow> [0..<nT ev]
                  | Some thr \<Rightarrow> indices_of thr (iouThrs p))
        in if \<not> list_all (\<lambda>t. t < nT ev) ts then Inl IndexError
           else case broadcast_pairs aind mind of
                  Inl e \<Rightarrow> Inl e
                | Inr am \<Rightarrow>
                    if \<not> list_all (\<lambda>(a, m). a < nA ev \<and> m < nM ev) am then Inl IndexError
                    else if ap
                    then Inr (concat (map (\<lambda>t. concat (map (\<lambda>r. concat (map (\<lambda>k.
                                 map (\<lambda>(a, m). precision ev t r k a m) am)
                               [0..<nK ev])) [0..<nR ev])) ts))
                    else Inr (concat (map (\<lambda>t. concat (map (\<lambda>k.
                                 map (\<lambda>(a, m). recall ev t k a m) am)
                               [0..<nK ev])) ts)))"

text \<open>
  \<open>_summarize\<close> (here \<open>summarize_one\<close>): the mean of the selected entries greater
  than \<open>-1\<close>, and \<open>-1\<close> when there is none.  The line it prints is not modelled.
\<close>

definition summarize_one ::
  "flake_params \<Rightarrow> coco_eval_data \<Rightarrow> bool \<Rightarrow> real option \<Rightarrow> string \<Rightarrow> int \<Rightarrow> py_error + real"
where
  "summarize_one p ev ap iouThr areaRng' maxDets' =
     (case summarize_selection p ev ap iouThr areaRng' maxDets' of
        Inl e \<Rightarrow> Inl e
      | Inr s \<Rightarrow>
          if length (filter (\<lambda>x. - 1 < x) s) = 0 then Inr (- 1)
          else Inr (np_mean (filter (\<lambda>x. - 1 < x) s)))"

text \<open>
  The thirty calls of \<open>_summarizeDets\<close>, in the order of \<open>stats[0]\<close> to
  \<open>stats[29]\<close>: (\<open>ap\<close>, \<open>iouThr\<close>, \<open>areaRng\<close>).
\<close>

definition summarizeDets_calls :: "(bool \<times> real option \<times> string) list" where
  "summarizeDets_calls =
     [ (True, Some 0.5, ''all''),
       (True, Some 0.5, ''0-100''),
       (True, Some 0.5, ''100-200''),
       (True, Some 0.5, ''200-400''),
       (True, Some 0.5, ''400-inf''),
       (False, Some 0.5, ''all''),
       (False, Some 0.5, ''0-100''),
       (False, Some 0.5, ''100-200''),
       (False, Some 0.5, ''200-400''),
       (False, Some 0.5, ''400-inf''),
       (True, Some 0.75, ''all''),
       (True, Some 0.75, ''0-100''),
       (True, Some 0.75, ''100-200''),
       (True, Some 0.75, ''200-400''),
       (True, Some 0.75, ''400-inf''),
       (False, Some 0.75, ''all''),
       (False, Some 0.75, ''0-100''),
       (False, Some 0.75, ''100-200''),
       (False, Some 0.75, ''200-400''),
       (False, Some 0.75, ''400-inf''),
       (True, None, ''all''),
       (True, None, ''0-100''),
       (True, None, ''100-200''),
       (True, None, ''200-400''),
       (True, None, ''400-inf''),
       (False, None, ''all''),
       (False, None, ''0-100''),
       (False, None, ''100-200''),
       (False, None, ''200-400''),
       (False, None, ''400-inf'') ]"

text \<open>Running a list of computations in order, up to the first exception.\<close>

fun sequence :: "(py_error + 'a) list \<Rightarrow> py_error + 'a list" where
  "sequence [] = Inr []"
| "sequence (x # xs) =
     (case x of
        Inl e \<Rightarrow> Inl e
      | Inr v \<Rightarrow> (case sequence xs of Inl e \<Rightarrow> Inl e | Inr vs \<Rightarrow> Inr (v # vs)))"

definition summarizeDets :: "flake_params \<Rightarrow> coco_eval_data \<Rightarrow> py_error + real list" where
  "summarizeDets p ev =
     (if length (maxDets p) < 3 then Inl IndexError
      else sequence (map (\<lambda>(ap, iouThr, areaRng').
                            summarize_one p ev ap iouThr areaRng' (maxDets p ! 2))
                         summarizeDets_calls))"

text \<open>
  \<open>FlakeCOCOeval.summarize\<close>.  For an \<open>iouType\<close> other than \<open>segm\<close> and
  \<open>bbox\<close> the local name \<open>summarize\<close> is never bound.
\<close>

definition summarize :: "'dt flake_cocoeval \<Rightarrow> py_error + 'dt flake_cocoeval" where
  "summarize self =
     (case eval self of
        None \<Rightarrow> Inl (Exception ''Please run accumulate() first'')
      | Some ev \<Rightarrow>
          if iouType (params self) = ''segm'' \<or> iouType (params self) = ''bbox''
          then (case summarizeDets (params self) ev of
                  Inl e \<Rightarrow> Inl e
                | Inr st \<Rightarrow> Inr (self\<lparr>stats := st\<rparr>))
          else Inl UnboundLocalError)"

section \<open>utils/evaluator.py: FlakeCOCOEvaluator\<close>

text \<open>
  What the evaluator does to the outside, in order: the records of its logger, the files
  it writes, and the calls of \<open>_evaluate_predictions_on_coco\<close>, the entry to the COCO
  evaluation engine.
\<close>

datatype level = Info | Warning

datatype event =
    Log level string
  | Mkdirs string
  | ConvertToCocoJson string string
  | TorchSave string
  | WriteJson string "coco_result list"
  | PickleDump string
  | EngineCall string

record metadata =
  json_file :: "string option"
  thing_dataset_id_to_contiguous_id :: "(int \<times> int) list option"
  thing_classes :: "string list option"

text \<open>One element of \<open>self._predictions\<close>; the keys other than \<open>image_id\<close> are optional.\<close>

record 'prop prediction =
  p_image_id :: int
  instances :: "coco_result list option"
  proposals :: "'prop option"

type_synonym metrics = "(string \<times> pyfloat) list"

record ('dt, 'prop) evaluator =
  trace :: "event list"
  distributed :: bool
  output_dir :: "string option"
  max_dets_per_image :: "int list"
  tasks :: "string list option"
  metadata :: metadata
  coco_api :: "'dt coco_api"
  do_evaluation :: bool
  kpt_oks_sigmas :: "real list option"
  predictions :: "'prop prediction list option"
  results :: "(string \<times> metrics) list"

text \<open>The argument \<open>tasks\<close> of the constructor: \<open>None\<close>, a tuple of names, or a \<open>CfgNode\<close>
  (of which only \<open>TEST.KEYPOINT_OKS_SIGMAS\<close> is read).\<close>

datatype tasks_arg = TasksNone | TasksTuple "string list" | TasksCfg "real list"

text \<open>\<open>os.path.join\<close> of two components.\<close>

definition path_join :: "string \<Rightarrow> string \<Rightarrow> string" where
  "path_join a b =
     (if b \<noteq> [] \<and> hd b = CHR ''/'' then b
      else if a = [] \<or> last a = CHR ''/'' then a @ b
      else a @ ''/'' @ b)"

text \<open>A string or \<open>None\<close> where the source tests it for truth.\<close>

definition truthy :: "string option \<Rightarrow> bool" where
  "truthy d = (case d of None \<Rightarrow> False | Some x \<Rightarrow> x \<noteq> [])"

definition log_to :: "level \<Rightarrow> string \<Rightarrow> ('dt, 'prop) evaluator \<Rightarrow> ('dt, 'prop) evaluator" where
  "log_to l msg self = self\<lparr>trace := trace self @ [Log l msg]\<rparr>"

text \<open>
  \<open>FlakeCOCOEvaluator.__init__\<close>.  \<open>md\<close> is \<open>MetadataCatalog.get(dataset_name)\<close> and
  \<open>COCO\<close> loads the annotation file.
\<close>

definition FlakeCOCOEvaluator_init ::
  "(string \<Rightarrow> py_error + 'dt coco_api) \<Rightarrow> metadata \<Rightarrow> string \<Rightarrow> tasks_arg \<Rightarrow> bool
     \<Rightarrow> string option \<Rightarrow> int option \<Rightarrow> real list \<Rightarrow> py_error + ('dt, 'prop) evaluator"
where
  "FlakeCOCOEvaluator_init COCO md dataset_name tasks' distributed' output_dir'
       max_dets_per_image' kpt_oks_sigmas' =
     (let max_dets = (case max_dets_per_image' of
                        None \<Rightarrow> [1, 10, 100]
                      | Some m \<Rightarrow> [1, 10, m]);
          sigmas = (case tasks' of
                      TasksCfg cfg_sigmas \<Rightarrow> if kpt_oks_sigmas' = [] then cfg_sigmas else kpt_oks_sigmas'
                    | _ \<Rightarrow> kpt_oks_sigmas');
          tr1 = (case tasks' of
                   TasksCfg _ \<Rightarrow>
                     [Log Warning ''COCO Evaluator instantiated using config, this is deprecated behavior. Please pass in explicit arguments instead.'']
                 | _ \<Rightarrow> []);
          tasks1 = (case tasks' of TasksTuple ts \<Rightarrow> Some ts | _ \<Rightarrow> None);
          finish = (\<lambda>tr2 md1 file.
            case COCO file of
              Inl e \<Rightarrow> Inl e
            | Inr api \<Rightarrow>
                Inr \<lparr> trace = tr2,
                      distributed = distributed',
                      output_dir = output_dir',
                      max_dets_per_image = max_dets,
                      tasks = tasks1,
                      metadata = md1,
                      coco_api = api,
                      do_evaluation = has_annotations api,
                      kpt_oks_sigmas = (if has_annotations api then Some sigmas else None),
                      predictions = None,
                      results = [] \<rparr>)
      in case json_file md of
           Some file \<Rightarrow> finish tr1 md file
         | None \<Rightarrow>
             (case output_dir' of
                None \<Rightarrow> Inl ValueError
              | Some dir \<Rightarrow>
                  let cache_path = path_join dir (dataset_name @ ''_coco_format.json'')
                  in finish
                       (tr1 @ [Log Info (''Trying to convert '' @ dataset_name @ '' to COCO format ...''),
                               ConvertToCocoJson dataset_name cache_path])
                       (md\<lparr>json_file := Some cache_path\<rparr>)
                       cache_path))"

definition reset :: "('dt, 'prop) evaluator \<Rightarrow> ('dt, 'prop) evaluator" where
  "reset self = self\<lparr>predictions := Some []\<rparr>"



text \<open>\<open>_tasks_from_predictions\<close>: the sorted set of task names.\<close>

definition tasks_from_predictions :: "coco_result list \<Rightarrow> string list" where
  "tasks_from_predictions preds =
     sort (remdups ([''bbox''] @
       concat (map (\<lambda>pred. (if segmentation pred \<noteq> None then [''segm''] else []) @
                            (if keypoints pred \<noteq> None then [''keypoints''] else [])) preds)))"

text \<open>
  The block of \<open>_eval_predictions\<close> that maps the contiguous category ids back to the
  ids of the dataset, with its assertions.
\<close>

definition unmap_category_ids :: "metadata \<Rightarrow> coco_result list \<Rightarrow> py_error + coco_result list" where
  "unmap_category_ids md coco_results =
     (case thing_dataset_id_to_contiguous_id md of
        None \<Rightarrow> Inr coco_results
      | Some dataset_id_to_contiguous_id \<Rightarrow>
          let all_contiguous_ids = map snd dataset_id_to_contiguous_id;
              num_classes = int (length all_contiguous_ids)
          in if all_contiguous_ids = [] then Inl ValueError
             else if \<not> (fold min (tl all_contiguous_ids) (hd all_contiguous_ids) = 0 \<and>
                        fold max (tl all_contiguous_ids) (hd all_contiguous_ids) = num_classes - 1)
             then Inl AssertionError
             else
               let reverse_id_mapping =
                     map_of (rev (map (\<lambda>(k, v). (v, k)) dataset_id_to_contiguous_id))
               in sequence (map (\<lambda>result.
                      if \<not> category_id result < num_classes then Inl AssertionError
                      else (case reverse_id_mapping (category_id result) of
                              None \<Rightarrow> Inl KeyError
                            | Some k \<Rightarrow> Inr (result\<lparr>category_id := k\<rparr>)))
                    coco_results))"

text \<open>\<open>str\<close> of an integer, for the keys built with f-strings.\<close>

fun str_nat :: "nat \<Rightarrow> string" where
  "str_nat n =
     (if n < 10 then [''0123456789'' ! n]
      else str_nat (n div 10) @ [''0123456789'' ! (n mod 10)])"

declare str_nat.simps [simp del]

definition str_int :: "int \<Rightarrow> string" where
  "str_int i = (if i < 0 then CHR ''-'' # str_nat (nat (- i)) else str_nat (nat i))"

text \<open>A dictionary built by assignments in order: a later one to the same key wins.\<close>

definition dict_update_all :: "(string \<times> 'v) list \<Rightarrow> (string \<times> 'v) list \<Rightarrow> (string \<times> 'v) list" where
  "dict_update_all kvs d = fold (\<lambda>(k, v). AList.update k v) kvs d"

definition mul_f :: "pyfloat \<Rightarrow> real \<Rightarrow> pyfloat" where
  "mul_f x c = (case x of NaN \<Rightarrow> NaN | Fin r \<Rightarrow> Fin (r * c))"

text \<open>The table \<open>metrics\<close> of \<open>_derive_coco_results\<close> and its lookup by \<open>iou_type\<close>.\<close>

definition metric_names :: "string \<Rightarrow> py_error + string list" where
  "metric_names iou_type =
     (if iou_type = ''bbox''
      then Inr [''AP'', ''AP50'', ''AP75'', ''APs'', ''APm'', ''APl'']
      else if iou_type = ''segm''
      then Inr [ ''AP50'', ''AP50,0-100'', ''AP50,100-200'', ''AP50,200-400'', ''AP50,400-inf'',
                 ''AR50'', ''AR50,0-100'', ''AR50,100-200'', ''AR50,200-400'', ''AR50,400-inf'',
                 ''AP75'', ''AP75,0-100'', ''AP75,100-200'', ''AP75,200-400'', ''AP75,400-inf'',
                 ''AR75'', ''AR75,0-100'', ''AR75,100-200'', ''AR75,200-400'', ''AR75,400-inf'',
                 ''AP'', ''AP,0-100'', ''AP,100-200'', ''AP,200-400'', ''AP,400-inf'',
                 ''AR'', ''AR,0-100'', ''AR,100-200'', ''AR,200-400'', ''AR,400-inf'' ]
      else Inl KeyError)"

text \<open>
  One entry of "the standard metrics":
  \<open>round(float(stats[idx] * 100 if stats[idx] >= 0 else "nan"), 2)\<close>.
\<close>

definition standard_value :: "real list \<Rightarrow> nat \<Rightarrow> py_error + pyfloat" where
  "standard_value stats' idx =
     (if idx < length stats'
      then Inr (py_round_f (if 0 \<le> stats' ! idx then Fin (stats' ! idx * 100) else NaN) 2)
      else Inl IndexError)"

definition standard_results :: "real list \<Rightarrow> string list \<Rightarrow> py_error + metrics" where
  "standard_results stats' metrics' =
     (case sequence (map (\<lambda>(idx, metric).
                            case standard_value stats' idx of
                              Inl e \<Rightarrow> Inl e
                            | Inr v \<Rightarrow> Inr (metric, v))
                         (enumerate 0 metrics')) of
        Inl e \<Rightarrow> Inl e
      | Inr kvs \<Rightarrow> Inr (dict_update_all kvs []))"

text \<open>
  The per-category loop.  \<open>per_class_selection\<close> is \<open>sub_metric\<close> before the filter:
  \<open>metric[t, :, class_index, area_idx, -1]\<close> for the precision and
  \<open>metric[t, class_index, area_idx, -1]\<close> for the recall, where \<open>t\<close> is the
  position of the threshold or the whole axis.
\<close>

definition per_class_selection ::
  "flake_params \<Rightarrow> coco_eval_data \<Rightarrow> string \<Rightarrow> nat \<Rightarrow> real option \<Rightarrow> nat \<Rightarrow> py_error + real list"
where
  "per_class_selection p ev mode area_idx iouThr class_index =
     (let ts = (case iouThr of
                  None \<Rightarrow> [0..<nT ev]
                | Some thr \<Rightarrow> indices_of thr (iouThrs p))
      in if \<not> list_all (\<lambda>t. t < nT ev) ts \<or> \<not> class_index < nK ev \<or> \<not> area_idx < nA ev
              \<or> nM ev = 0
         then Inl IndexError
         else if mode = ''AP''
         then Inr (concat (map (\<lambda>t. map (\<lambda>r. precision ev t r class_index area_idx (nM ev - 1))
                                         [0..<nR ev]) ts))
         else Inr (map (\<lambda>t. recall ev t class_index area_idx (nM ev - 1)) ts))"

definition per_class_value ::
  "flake_params \<Rightarrow> coco_eval_data \<Rightarrow> string \<Rightarrow> nat \<Rightarrow> real option \<Rightarrow> nat \<Rightarrow> py_error + pyfloat"
where
  "per_class_value p ev mode area_idx iouThr class_index =
     (case per_class_selection p ev mode area_idx iouThr class_index of
        Inl e \<Rightarrow> Inl e
      | Inr sub_metric0 \<Rightarrow>
          let sub_metric = filter (\<lambda>x. - 1 < x) sub_metric0;
              final_metric = (if length sub_metric \<noteq> 0 then Fin (np_mean sub_metric) else NaN)
          in Inr (py_round_f (mul_f final_metric 100) 2))"

definition result_key :: "string \<Rightarrow> real option \<Rightarrow> nat \<Rightarrow> string \<Rightarrow> string \<Rightarrow> string" where
  "result_key mode iouThr area_idx area_label class_name =
     mode @
     (case iouThr of None \<Rightarrow> [] | Some thr \<Rightarrow> str_int (py_int (thr * 100))) @
     (if 0 < area_idx then '','' @ area_label else []) @
     ''_'' @ class_name"

text \<open>The assignments \<open>results.update({result_key: ...})\<close> of the four nested loops, in order.\<close>

definition per_class_entries ::
  "flake_params \<Rightarrow> coco_eval_data option \<Rightarrow> string list \<Rightarrow> (py_error + string \<times> pyfloat) list"
where
  "per_class_entries p evo class_names =
     concat (map (\<lambda>mode.
       concat (map (\<lambda>(area_idx, area_label).
         concat (map (\<lambda>iouThr.
           map (\<lambda>(class_index, class_name).
                  case evo of
                    None \<Rightarrow> Inl KeyError
                  | Some ev \<Rightarrow>
                      (case per_class_value p ev mode area_idx iouThr class_index of
                         Inl e \<Rightarrow> Inl e
                       | Inr v \<Rightarrow>
                           Inr (result_key mode iouThr area_idx area_label class_name, v)))
               (enumerate 0 class_names))
           [Some 0.5, None]))
         (enumerate 0 (areaRngLbl p))))
       [''AP'', ''AR''])"

text \<open>
  \<open>_derive_coco_results\<close>.  It reads the logger only, so it takes and returns the trace.
  The table that goes with the second record of the log is not modelled.
\<close>

definition derive_coco_results ::
  "event list \<Rightarrow> 'dt flake_cocoeval option \<Rightarrow> string \<Rightarrow> string list option
     \<Rightarrow> (py_error + metrics) \<times> event list"
where
  "derive_coco_results tr coco_eval iou_type class_names =
     (case metric_names iou_type of
        Inl e \<Rightarrow> (Inl e, tr)
      | Inr metrics' \<Rightarrow>
     (case coco_eval of
        None \<Rightarrow>
          (Inr (dict_update_all (map (\<lambda>metric. (metric, NaN)) metrics') []),
           tr @ [Log Warning ''No predictions from the model!''])
      | Some ce \<Rightarrow>
     (case standard_results (stats ce) metrics' of
        Inl e \<Rightarrow> (Inl e, tr)
      | Inr res \<Rightarrow>
          let tr1 = tr @ [Log Info (''Evaluation results for '' @ iou_type @ '': '')];
              tr2 = (if list_ex (\<lambda>(k, v). v = NaN) res
                     then tr1 @ [Log Info ''Some metrics cannot be computed and is shown as NaN.'']
                     else tr1)
          in (case class_names of
                None \<Rightarrow> (Inr res, tr2)
              | Some names \<Rightarrow>
                  if length names \<le> 1 then (Inr res, tr2)
                  else (case sequence (per_class_entries (params ce) (eval ce) names) of
                          Inl e \<Rightarrow> (Inl e, tr2)
                        | Inr kvs \<Rightarrow> (Inr (dict_update_all kvs res), tr2))))))"

text \<open>
  \<open>_evaluate_predictions_on_coco\<close>, called with \<open>cocoeval_fn=FlakeCOCOeval\<close>.  The
  methods \<open>evaluate\<close> and \<open>accumulate\<close>, which \<open>FlakeCOCOeval\<close> inherits from
  pycocotools, are the parameter \<open>accumulate\<close>.  In the keypoint block the parameters
  have no attribute \<open>kpt_oks_sigmas\<close>: \<open>FlakeParams\<close> never sets one.
\<close>

definition keypoints_checks ::
  "'dt coco_api \<Rightarrow> coco_result list \<Rightarrow> real list option \<Rightarrow> py_error + unit"
where
  "keypoints_checks coco_gt coco_results kpt_oks_sigmas' =
     (if kpt_oks_sigmas' \<noteq> None \<and> kpt_oks_sigmas' \<noteq> Some [] then Inl AssertionError
      else case keypoints (hd coco_results) of
             None \<Rightarrow> Inl KeyError
           | Some _ \<Rightarrow>
               (case first_ann_keypoints coco_gt of
                  Inl e \<Rightarrow> Inl e
                | Inr _ \<Rightarrow> Inl AttributeError))"

definition evaluate_predictions_on_coco ::
  "('dt flake_cocoeval \<Rightarrow> py_error + coco_eval_data) \<Rightarrow> 'dt coco_api \<Rightarrow> coco_result list
     \<Rightarrow> string \<Rightarrow> real list option \<Rightarrow> int list option \<Rightarrow> int list option
     \<Rightarrow> py_error + 'dt flake_cocoeval"
where
  "evaluate_predictions_on_coco accumulate coco_gt coco_results iou_type kpt_oks_sigmas'
       img_ids max_dets_per_image' =
     (if \<not> 0 < length coco_results then Inl AssertionError
      else
        let coco_results1 = (if iou_type = ''segm''
                             then map (\<lambda>c. c\<lparr>bbox := None\<rparr>) coco_results
                             else coco_results)
        in case loadRes coco_gt coco_results1 of
             Inl e \<Rightarrow> Inl e
           | Inr coco_dt \<Rightarrow>
        (case FlakeCOCOeval_init (Some coco_gt) (Some coco_dt) iou_type of
             Inl e \<Rightarrow> Inl e
           | Inr coco_eval \<Rightarrow>
               let max_dets = (case max_dets_per_image' of
                                 None \<Rightarrow> [1, 10, 100]
                               | Some m \<Rightarrow> m);
                   coco_eval1 = (if iou_type \<noteq> ''keypoints''
                                 then coco_eval\<lparr>params := (params coco_eval)\<lparr>maxDets := max_dets\<rparr>\<rparr>
                                 else coco_eval);
                   coco_eval2 = (case img_ids of
                                   None \<Rightarrow> coco_eval1
                                 | Some ids \<Rightarrow>
                                     coco_eval1\<lparr>params := (params coco_eval1)\<lparr>imgIds := ids\<rparr>\<rparr>)
               in (case (if iou_type = ''keypoints''
                         then keypoints_checks coco_gt coco_results kpt_oks_sigmas'
                         else Inr ()) of
                     Inl e \<Rightarrow> Inl e
                   | Inr _ \<Rightarrow>
                       (case accumulate coco_eval2 of
                          Inl e \<Rightarrow> Inl e
                        | Inr ev \<Rightarrow> summarize (coco_eval2\<lparr>eval := Some ev\<rparr>)))))"

text \<open>
  The path of an artifact under \<open>self._output_dir\<close>, when that is set and not empty.
\<close>

definition out_path :: "string option \<Rightarrow> string \<Rightarrow> string option" where
  "out_path dir name =
     (case dir of
        None \<Rightarrow> None
      | Some d \<Rightarrow> if d = [] then None else Some (path_join d name))"

text \<open>
  The loop \<open>for task in sorted(tasks)\<close> of \<open>_eval_predictions\<close>.  The trace gets an
  \<open>EngineCall\<close> where the source calls \<open>_evaluate_predictions_on_coco\<close>.
\<close>

fun eval_tasks ::
  "('dt flake_cocoeval \<Rightarrow> py_error + coco_eval_data) \<Rightarrow> ('dt, 'prop) evaluator
     \<Rightarrow> coco_result list \<Rightarrow> int list option \<Rightarrow> string list
     \<Rightarrow> (py_error + unit) \<times> ('dt, 'prop) evaluator"
where
  "eval_tasks accumulate self coco_results img_ids [] = (Inr (), self)"
| "eval_tasks accumulate self coco_results img_ids (task # rest) =
     (if task \<notin> set [''bbox'', ''segm'', ''keypoints''] then (Inl AssertionError, self)
      else
        let self1 = (if 0 < length coco_results
                     then self\<lparr>trace := trace self @ [EngineCall task]\<rparr>
                     else self);
            coco_eval =
              (if 0 < length coco_results
               then (case kpt_oks_sigmas self of
                       None \<Rightarrow> Inl AttributeError
                     | Some sigmas \<Rightarrow>
                         (case evaluate_predictions_on_coco accumulate (coco_api self)
                                 coco_results task (Some sigmas) img_ids
                                 (Some (max_dets_per_image self)) of
                            Inl e \<Rightarrow> Inl e
                          | Inr ce \<Rightarrow> Inr (Some ce)))
               else Inr None)
        in (case coco_eval of
              Inl e \<Rightarrow> (Inl e, self1)
            | Inr ce \<Rightarrow>
                (case derive_coco_results (trace self1) ce task (thing_classes (metadata self1)) of
                   (Inl e, tr) \<Rightarrow> (Inl e, self1\<lparr>trace := tr\<rparr>)
                 | (Inr res, tr) \<Rightarrow>
                     eval_tasks accumulate
                       (self1\<lparr>trace := tr, results := AList.update task res (results self1)\<rparr>)
                       coco_results img_ids rest)))"

text \<open>
  \<open>list(itertools.chain(*[x["instances"] for x in predictions]))\<close>: a prediction
  without the key \<open>instances\<close> is a \<open>KeyError\<close>.
\<close>

definition collect_instances :: "'prop prediction list \<Rightarrow> py_error + coco_result list" where
  "collect_instances predictions' =
     (case sequence (map (\<lambda>x. case instances x of
                                    None \<Rightarrow> Inl KeyError
                                  | Some r \<Rightarrow> Inr r) predictions') of
        Inl e \<Rightarrow> Inl e
      | Inr chunks \<Rightarrow> Inr (concat chunks))"

text \<open>\<open>_eval_predictions\<close>.\<close>

definition eval_predictions ::
  "('dt flake_cocoeval \<Rightarrow> py_error + coco_eval_data) \<Rightarrow> ('dt, 'prop) evaluator
     \<Rightarrow> 'prop prediction list \<Rightarrow> int list option
     \<Rightarrow> (py_error + unit) \<times> ('dt, 'prop) evaluator"
where
  "eval_predictions accumulate self predictions' img_ids =
     (let self1 = log_to Info ''Preparing results for COCO format ...'' self
      in (case collect_instances predictions' of
            Inl e \<Rightarrow> (Inl e, self1)
          | Inr coco_results0 \<Rightarrow>
              let tasks' = (case tasks self1 of
                              None \<Rightarrow> tasks_from_predictions coco_results0
                            | Some ts \<Rightarrow>
                                if ts = [] then tasks_from_predictions coco_results0 else ts)
              in (case unmap_category_ids (metadata self1) coco_results0 of
                    Inl e \<Rightarrow> (Inl e, self1)
                  | Inr coco_results \<Rightarrow>
                      let self2 =
                            (case out_path (output_dir self1) ''coco_instances_results.json'' of
                               None \<Rightarrow> self1
                             | Some file_path \<Rightarrow>
                                 self1\<lparr>trace := trace self1 @
                                   [Log Info (''Saving results to '' @ file_path),
                                    WriteJson file_path coco_results]\<rparr>)
                      in if \<not> do_evaluation self2
                         then (Inr (),
                               log_to Info ''Annotations are not available for evaluation.'' self2)
                         else eval_tasks accumulate
                                (log_to Info ''Evaluating predictions with FlakeCOCO API...'' self2)
                                coco_results img_ids (sort tasks'))))"

text \<open>
  \<open>_eval_box_proposals\<close>.  The recall \<open>stats["ar"]\<close> of \<open>_evaluate_box_proposals\<close>
  is the parameter \<open>box_ar\<close>.
\<close>

definition eval_box_proposals ::
  "('prop prediction list \<Rightarrow> string \<Rightarrow> int \<Rightarrow> py_error + pyfloat) \<Rightarrow> ('dt, 'prop) evaluator
     \<Rightarrow> 'prop prediction list \<Rightarrow> (py_error + unit) \<times> ('dt, 'prop) evaluator"
where
  "eval_box_proposals box_ar self predictions' =
     (case (case out_path (output_dir self) ''box_proposals.pkl'' of
              None \<Rightarrow> Inr self
            | Some file_path \<Rightarrow>
                if list_all (\<lambda>p. proposals p \<noteq> None) predictions'
                then Inr (self\<lparr>trace := trace self @ [PickleDump file_path]\<rparr>)
                else Inl KeyError) of
        Inl e \<Rightarrow> (Inl e, self)
      | Inr self1 \<Rightarrow>
          if \<not> do_evaluation self1
          then (Inr (), log_to Info ''Annotations are not available for evaluation.'' self1)
          else
            let self2 = log_to Info ''Evaluating bbox proposals ...'' self1
            in (case sequence (concat (map (\<lambda>limit.
                        map (\<lambda>(area, suffix).
                               case box_ar predictions' area limit of
                                 Inl e \<Rightarrow> Inl e
                               | Inr ar \<Rightarrow>
                                   Inr (''AR'' @ suffix @ ''@'' @ str_int limit, mul_f ar 100))
                            [(''all'', []), (''small'', ''s''), (''medium'', ''m''), (''large'', ''l'')])
                      [100, 1000])) of
                  Inl e \<Rightarrow> (Inl e, self2)
                | Inr kvs \<Rightarrow>
                    let self3 = log_to Info ''Proposal metrics: '' self2
                    in (Inr (),
                        self3\<lparr>results :=
                          AList.update ''box_proposals'' (dict_update_all kvs []) (results self3)\<rparr>)))"

text \<open>
  \<open>evaluate\<close>.  \<open>detectron2.utils.comm\<close> is a parameter: what \<open>gather\<close> returns for
  the list of this process, and whether this is the main process.
\<close>

record 'prop comm =
  gather :: "'prop prediction list \<Rightarrow> 'prop prediction list list"
  is_main_process :: bool

definition evaluate ::
  "'prop comm \<Rightarrow> ('dt flake_cocoeval \<Rightarrow> py_error + coco_eval_data)
     \<Rightarrow> ('prop prediction list \<Rightarrow> string \<Rightarrow> int \<Rightarrow> py_error + pyfloat)
     \<Rightarrow> ('dt, 'prop) evaluator \<Rightarrow> int list option
     \<Rightarrow> (py_error + (string \<times> metrics) list) \<times> ('dt, 'prop) evaluator"
where
  "evaluate comm' accumulate box_ar self img_ids =
     (case predictions self of
        None \<Rightarrow> (Inl AttributeError, self)
      | Some own \<Rightarrow>
          if distributed self \<and> \<not> is_main_process comm' then (Inr [], self)
          else
            let predictions' = (if distributed self then concat (gather comm' own) else own)
            in if length predictions' = 0
               then (Inr [],
                     log_to Warning ''[COCOEvaluator] Did not receive valid predictions.'' self)
               else
                 let self1 =
                       (case out_path (output_dir self) ''instances_predictions.pth'' of
                          None \<Rightarrow> self
                        | Some file_path \<Rightarrow>
                            self\<lparr>trace := trace self @
                              [Mkdirs (case output_dir self of None \<Rightarrow> [] | Some d \<Rightarrow> d),
                               TorchSave file_path]\<rparr>);
                     self2 = self1\<lparr>results := []\<rparr>
                 in (case (if proposals (hd predictions') \<noteq> None
                           then eval_box_proposals box_ar self2 predictions'
                           else (Inr (), self2)) of
                       (Inl e, s) \<Rightarrow> (Inl e, s)
                     | (Inr _, self3) \<Rightarrow>
                         (case (if instances (hd predictions') \<noteq> None
                                then eval_predictions accumulate self3 predictions' img_ids
                                else (Inr (), self3)) of
                            (Inl e, s) \<Rightarrow> (Inl e, s)
                          | (Inr _, self4) \<Rightarrow> (Inr (results self4), self4))))"


section \<open>utils/evaluator.py: evaluate\_on\_dataset\<close>













section \<open>Examples\<close>

text \<open>Concrete inputs on which the theorems below are instantiated.\<close>

definition example_mask :: ndarray2 where
  "example_mask =
     \<lparr> shape0 = 3, shape1 = 4, item = (\<lambda>i j. (i = 1 \<and> j = 1) \<or> (i = 2 \<and> j = 3)) \<rparr>"

definition zero_mask :: ndarray2 where
  "zero_mask = \<lparr> shape0 = 2, shape1 = 3, item = (\<lambda>i j. False) \<rparr>"

definition example_flake :: "ndarray2 \<Rightarrow> int \<Rightarrow> int \<Rightarrow> flake" where
  "example_flake m mx mn = Flake_init m ''1'' 2 [10.5, 20, 30] [1.5, 2] mx mn 0 (- 1)"

text \<open>
  An evaluator for a dataset whose annotation file has images and categories but no
  annotations, as the constructor builds it, after \<open>reset\<close>; a result of one
  instance and the prediction that holds it.
\<close>

definition example_api :: "bool \<Rightarrow> unit coco_api" where
  "example_api ann =
     \<lparr> has_annotations = ann, getImgIds = [1], getCatIds = [1],
       loadRes = (\<lambda>rs. Inr ()), first_ann_keypoints = Inl KeyError \<rparr>"

definition example_metadata :: metadata where
  "example_metadata =
     \<lparr> json_file = Some ''flakes.json'',
       thing_dataset_id_to_contiguous_id = Some [(1, 0)],
       thing_classes = None \<rparr>"

definition example_evaluator :: "bool \<Rightarrow> string option \<Rightarrow> (unit, unit) evaluator" where
  "example_evaluator dst dir =
     \<lparr> trace = [], distributed = dst, output_dir = dir, max_dets_per_image = [1, 10, 100],
       tasks = None, metadata = example_metadata, coco_api = example_api False,
       do_evaluation = False, kpt_oks_sigmas = None, predictions = Some [], results = [] \<rparr>"

definition example_result :: "int \<Rightarrow> coco_result" where
  "example_result cat =
     \<lparr> image_id = 1, category_id = cat, bbox = Some [0, 0, 2, 2], score = 1,
       segmentation = Some ''rle'', keypoints = None \<rparr>"


text \<open>
  The part of a per-category key before the underscore, and the labels of the area
  ranges; both serve the proofs about the keys.
\<close>

definition key_prefix :: "string \<Rightarrow> real option \<Rightarrow> nat \<Rightarrow> string \<Rightarrow> string" where
  "key_prefix mode iouThr area_idx area_label =
     mode @
     (case iouThr of None \<Rightarrow> [] | Some thr \<Rightarrow> str_int (py_int (thr * 100))) @
     (if 0 < area_idx then '','' @ area_label else [])"

definition labels5 :: "string list" where
  "labels5 = [''all'', ''0-100'', ''100-200'', ''200-400'', ''400-inf'']"

text \<open>
  An accumulated evaluation in which the second area range (\<open>0-100\<close>) has no valid
  entry, the engine run on it, and the metrics derived for two classes.
\<close>

definition example_eval_data :: coco_eval_data where
  "example_eval_data =
     \<lparr> nT = 6, nR = 1, nK = 2, nA = 5, nM = 3,
       precision = (\<lambda>t r k a m. if a = 1 then - 1 else 1 / 2),
       recall = (\<lambda>t k a m. if a = 1 then - 1 else 1 / 4) \<rparr>"

definition example_pipeline :: "py_error + unit flake_cocoeval" where
  "example_pipeline =
     evaluate_predictions_on_coco (\<lambda>ce. Inr example_eval_data) (example_api True)
       [example_result 1] ''segm'' (Some []) None None"

definition example_derived :: "py_error + metrics" where
  "example_derived =
     fst (derive_coco_results [] (Some (projr example_pipeline)) ''segm'' (Some [''1L'', ''2L'']))"




section \<open>The Flake container: aspect ratio\<close>

lemma round_half_even_between:
  assumes "of_int n - 1 / 2 < x" "x < of_int n + 1 / 2"
  shows "round_half_even x = n"
proof -
  consider "\<lfloor>x\<rfloor> = n" | "\<lfloor>x\<rfloor> = n - 1"
    using assms by linarith
  then show ?thesis
  proof cases
    case 1
    then show ?thesis using assms by (simp add: round_half_even_def Let_def)
  next
    case 2
    then have "x - of_int (n - 1) > 1 / 2" using assms by simp
    then show ?thesis using 2 assms by (simp add: round_half_even_def Let_def)
  qed
qed

lemma round_half_even_lower:
  assumes "of_int n - 1 / 2 < x"
  shows "n \<le> round_half_even x"
proof -
  have f: "n - 1 \<le> \<lfloor>x\<rfloor>" using assms by linarith
  show ?thesis
  proof (cases "\<lfloor>x\<rfloor> = n - 1")
    case True
    then have "x - of_int \<lfloor>x\<rfloor> > 1 / 2" using assms by simp
    then show ?thesis using True by (simp add: round_half_even_def Let_def)
  next
    case False
    then have "n \<le> \<lfloor>x\<rfloor>" using f by linarith
    then show ?thesis by (simp add: round_half_even_def Let_def)
  qed
qed

lemma ratio_bounds:
  assumes "1 \<le> (m::int)"
  shows "999 / 1000 < of_int m / (of_int m + 1 / 100000 :: real)"
    and "of_int m / (of_int m + 1 / 100000 :: real) < 1"
proof -
  have m: "(1::real) \<le> of_int m" using assms by simp
  then have pos: "0 < (of_int m + 1 / 100000 :: real)" by linarith
  show "999 / 1000 < of_int m / (of_int m + 1 / 100000 :: real)"
    using m pos by (simp add: pos_less_divide_eq) 
  show "of_int m / (of_int m + 1 / 100000 :: real) < 1"
    using m pos by (simp add: pos_divide_less_eq)
qed


text \<open>
  C8.  A flake built with \<open>max_sidelength = min_sidelength\<close>, a positive integer, has
  the aspect ratio \<open>round(m / (m + 1e-5), 1) = 1.0\<close>.  The quotient lies so far inside the
  interval that rounds to \<open>1.0\<close> that every value within \<open>1/25\<close> of it rounds to
  \<open>1.0\<close> as well, which covers the error of the floating-point division.
\<close>

theorem aspect_ratio_square:
  assumes "0 < m"
  shows "aspect_ratio (Flake_init msk th sz mc c m m fpp en) = 1 \<and>
         (\<forall>q. \<bar>q - of_int m / (of_int m + 1 / 100000)\<bar> \<le> 1 / 25 \<longrightarrow> py_round q 1 = 1)"
proof -
  let ?q = "of_int m / (of_int m + 1 / 100000 :: real)"
  have b: "999 / 1000 < ?q" "?q < 1" using ratio_bounds[of m] assms by simp_all
  have near: "py_round q 1 = 1" if "\<bar>q - ?q\<bar> \<le> 1 / 25" for q
  proof -
    have "real_of_int 10 - 1 / 2 < q * 10" "q * 10 < real_of_int 10 + 1 / 2"
      unfolding of_int_numeral using b that by linarith+
    then have "round_half_even (q * 10) = 10"
      by (rule round_half_even_between)
    then show ?thesis by (simp add: py_round_def)
  qed
  have "py_round ?q 1 = 1" by (rule near) simp
  then have "aspect_ratio (Flake_init msk th sz mc c m m fpp en) = 1"
    by (simp add: Flake_init_def)
  then show ?thesis using near by blast
qed

theorem aspect_ratio_square_witness:
  "aspect_ratio (example_flake example_mask 7 7) = 1 \<and> py_round (7 / (7 + 1 / 100000)) 1 = 1"
proof -
  have pos: "(0::int) < 7" by simp
  from aspect_ratio_square[OF pos]
  have a: "aspect_ratio (Flake_init example_mask ''1'' 2 [10.5, 20, 30] [1.5, 2] 7 7 0 (- 1)) = 1"
    and n: "\<forall>q. \<bar>q - of_int 7 / (of_int 7 + 1 / 100000)\<bar> \<le> 1 / 25 \<longrightarrow> py_round q 1 = 1"
    by blast+
  from n have "py_round (7 / (7 + 1 / 100000)) 1 = 1" by simp
  then show ?thesis using a by (simp add: example_flake_def)
qed

text \<open>
  C9.  A flake built with a positive \<open>min_sidelength\<close> and a \<open>max_sidelength\<close> that is at
  least as large has an aspect ratio of at least 1; so has every value that is not more
  than \<open>1/25\<close> below the exact quotient.
\<close>

theorem aspect_ratio_ge_1:
  assumes "0 < mn" "mn \<le> mx"
  shows "1 \<le> aspect_ratio (Flake_init msk th sz mc c mx mn fpp en) \<and>
         (\<forall>q. of_int mx / (of_int mn + 1 / 100000) - 1 / 25 \<le> q \<longrightarrow> 1 \<le> py_round q 1)"
proof -
  let ?d = "(of_int mn + 1 / 100000 :: real)"
  have pos: "0 < ?d" using assms by simp
  have "999 / 1000 < of_int mn / ?d" using ratio_bounds(1)[of mn] assms by simp
  also have "of_int mn / ?d \<le> of_int mx / ?d"
    using assms pos by (simp add: divide_right_mono)
  finally have b: "999 / 1000 < of_int mx / ?d" .
  have near: "1 \<le> py_round q 1" if "of_int mx / ?d - 1 / 25 \<le> q" for q
  proof -
    have "real_of_int 10 - 1 / 2 < q * 10"
      unfolding of_int_numeral using b that by linarith
    then have "10 \<le> round_half_even (q * 10)"
      by (rule round_half_even_lower)
    then have "(10::real) \<le> of_int (round_half_even (q * 10))"
      by linarith
    then show ?thesis by (simp add: py_round_def)
  qed
  have "1 \<le> py_round (of_int mx / ?d) 1" by (rule near) simp
  then have "1 \<le> aspect_ratio (Flake_init msk th sz mc c mx mn fpp en)"
    by (simp add: Flake_init_def)
  then show ?thesis using near by blast
qed

theorem aspect_ratio_ge_1_witness:
  "1 \<le> aspect_ratio (example_flake example_mask 9 4)"
proof -
  have h: "(0::int) < 4" "(4::int) \<le> 9" by simp_all
  from aspect_ratio_ge_1[OF h]
  show ?thesis by (simp add: example_flake_def)
qed

section \<open>The Flake container: bounding box\<close>

lemma np_where_any_axis1:
  "np_where (np_any_axis1 m) =
     filter (\<lambda>i. \<exists>j<shape1 m. item m i j) [0..<shape0 m]"
proof -
  have "filter (\<lambda>i. np_any_axis1 m ! i) [0..<shape0 m] =
        filter (\<lambda>i. \<exists>j<shape1 m. item m i j) [0..<shape0 m]"
    by (rule filter_cong) (auto simp: np_any_axis1_def list_ex_iff)
  then show ?thesis by (simp add: np_where_def np_any_axis1_def)
qed

lemma np_where_any_axis0:
  "np_where (np_any_axis0 m) =
     filter (\<lambda>j. \<exists>i<shape0 m. item m i j) [0..<shape1 m]"
proof -
  have "filter (\<lambda>j. np_any_axis0 m ! j) [0..<shape1 m] =
        filter (\<lambda>j. \<exists>i<shape0 m. item m i j) [0..<shape1 m]"
    by (rule filter_cong) (auto simp: np_any_axis0_def list_ex_iff)
  then show ?thesis by (simp add: np_where_def np_any_axis0_def)
qed

lemma first_last_filter_empty:
  "(\<forall>i<n. \<not> P i) \<Longrightarrow> first_last (filter P [0..<n]) = Inl IndexError"
  by (simp add: first_last_def filter_empty_conv)

lemma first_last_filter:
  assumes "k < n" "P k"
  shows "\<exists>lo hi. first_last (filter P [0..<n]) = Inr (lo, hi) \<and>
           lo < n \<and> hi < n \<and> P lo \<and> P hi \<and> (\<forall>i<n. P i \<longrightarrow> lo \<le> i \<and> i \<le> hi)"
proof -
  let ?xs = "filter P [0..<n]"
  have ne: "?xs \<noteq> []" using assms by (auto simp: filter_empty_conv)
  have srt: "sorted ?xs" by (rule sorted_wrt_filter) simp
  have hd_in: "hd ?xs \<in> set ?xs" using ne by (rule hd_in_set)
  have last_in: "last ?xs \<in> set ?xs" using ne by (rule last_in_set)
  have lo: "\<forall>x\<in>set ?xs. hd ?xs \<le> x"
  proof (cases ?xs)
    case Nil
    then show ?thesis using ne by simp
  next
    case (Cons y ys)
    then have "sorted (y # ys)" using srt by simp
    then show ?thesis unfolding Cons by auto
  qed
  have hi: "\<forall>x\<in>set ?xs. x \<le> last ?xs"
  proof
    fix x assume "x \<in> set ?xs"
    have "sorted (butlast ?xs @ [last ?xs])" using srt ne by simp
    then have "\<forall>y\<in>set (butlast ?xs). y \<le> last ?xs"
      unfolding sorted_append by simp
    moreover have "x \<in> set (butlast ?xs) \<or> x = last ?xs"
      using \<open>x \<in> set ?xs\<close> ne
      by (metis append_butlast_last_id rotate1.simps(2) set_ConsD set_rotate1)
    ultimately show "x \<le> last ?xs" by auto
  qed
  show ?thesis
  proof (intro exI conjI)
    show "first_last ?xs = Inr (hd ?xs, last ?xs)" using ne by (simp add: first_last_def)
    show "hd ?xs < n" "P (hd ?xs)" using hd_in by auto
    show "last ?xs < n" "P (last ?xs)" using last_in by auto
    show "\<forall>i<n. P i \<longrightarrow> hd ?xs \<le> i \<and> i \<le> last ?xs"
      using lo hi by auto
  qed
qed


lemma mask_bbox_all_zero:
  assumes "\<forall>i<shape0 m. \<forall>j<shape1 m. \<not> item m i j"
  shows "mask_bbox m = Inl IndexError"
proof -
  have "first_last (np_where (np_any_axis1 m)) = Inl IndexError"
    unfolding np_where_any_axis1 using assms by (intro first_last_filter_empty) auto
  then show ?thesis by (simp add: mask_bbox_def Let_def)
qed

lemma mask_bbox_some:
  assumes "i0 < shape0 m" "j0 < shape1 m" "item m i0 j0"
  shows "\<exists>rmin rmax cmin cmax.
           mask_bbox m = Inr [int cmin, int rmin, int cmax - int cmin, int rmax - int rmin] \<and>
           rmin \<le> rmax \<and> rmax < shape0 m \<and> cmin \<le> cmax \<and> cmax < shape1 m \<and>
           (\<exists>j<shape1 m. item m rmin j) \<and> (\<exists>j<shape1 m. item m rmax j) \<and>
           (\<exists>i<shape0 m. item m i cmin) \<and> (\<exists>i<shape0 m. item m i cmax) \<and>
           (\<forall>i<shape0 m. \<forall>j<shape1 m. item m i j \<longrightarrow>
              rmin \<le> i \<and> i \<le> rmax \<and> cmin \<le> j \<and> j \<le> cmax)"
proof -
  let ?R = "\<lambda>i. \<exists>j<shape1 m. item m i j"
  let ?C = "\<lambda>j. \<exists>i<shape0 m. item m i j"
  have "?R i0" "?C j0" using assms by auto
  from first_last_filter[of i0 "shape0 m" ?R, OF assms(1) this(1)]
  obtain rmin rmax where r: "first_last (filter ?R [0..<shape0 m]) = Inr (rmin, rmax)"
    "rmin < shape0 m" "rmax < shape0 m" "?R rmin" "?R rmax"
    "\<forall>i<shape0 m. ?R i \<longrightarrow> rmin \<le> i \<and> i \<le> rmax" by blast
  from first_last_filter[of j0 "shape1 m" ?C, OF assms(2) \<open>?C j0\<close>]
  obtain cmin cmax where c: "first_last (filter ?C [0..<shape1 m]) = Inr (cmin, cmax)"
    "cmin < shape1 m" "cmax < shape1 m" "?C cmin" "?C cmax"
    "\<forall>j<shape1 m. ?C j \<longrightarrow> cmin \<le> j \<and> j \<le> cmax" by blast
  have eq: "mask_bbox m = Inr [int cmin, int rmin, int cmax - int cmin, int rmax - int rmin]"
    by (simp add: mask_bbox_def Let_def np_where_any_axis1 np_where_any_axis0 r(1) c(1))
  have "rmin \<le> rmax" using r(2,4,6) by blast
  moreover have "cmin \<le> cmax" using c(2,4,6) by blast
  moreover have "\<forall>i<shape0 m. \<forall>j<shape1 m. item m i j \<longrightarrow>
              rmin \<le> i \<and> i \<le> rmax \<and> cmin \<le> j \<and> j \<le> cmax"
    using r(6) c(6) by blast
  ultimately show ?thesis using eq r(3,4,5) c(3,4,5) by blast
qed

lemma to_dict_bbox_step:
  assumes "to_dict encode int_of_str self False = Inr d"
  shows "to_dict encode int_of_str self True =
           (case mask_bbox (mask self) of Inl e \<Rightarrow> Inl e | Inr b \<Rightarrow> Inr (d\<lparr>d_bbox := Some b\<rparr>))"
  using assms
  by (auto simp: to_dict_def Let_def split: sum.splits option.splits)

lemma to_dict_error_mono:
  assumes "to_dict encode int_of_str self False = Inl e"
  shows "to_dict encode int_of_str self True = Inl e"
  using assms
  by (auto simp: to_dict_def Let_def split: sum.splits option.splits)


text \<open>
  C4.  For a flake whose mask has no true entry, the derivation of the bounding box
  raises: \<open>np.where(rows)[0]\<close> is empty, so it has no entry \<open>0\<close> (an
  \<open>IndexError\<close>).  Hence \<open>to_dict(return_bbox=True)\<close> raises: with that
  \<open>IndexError\<close> whenever the dictionary without the box can be built, and otherwise
  with the exception of the failing entry.
\<close>

theorem to_dict_bbox_all_zero:
  assumes "\<forall>i<shape0 (mask self). \<forall>j<shape1 (mask self). \<not> item (mask self) i j"
  shows "mask_bbox (mask self) = Inl IndexError \<and>
         (\<exists>e. to_dict encode int_of_str self True = Inl e) \<and>
         (\<forall>d. to_dict encode int_of_str self False = Inr d \<longrightarrow>
              to_dict encode int_of_str self True = Inl IndexError)"
proof -
  have b: "mask_bbox (mask self) = Inl IndexError"
    using assms by (rule mask_bbox_all_zero)
  have step: "to_dict encode int_of_str self True = Inl IndexError"
    if "to_dict encode int_of_str self False = Inr d" for d
    using to_dict_bbox_step[OF that] b by simp
  have "\<exists>e. to_dict encode int_of_str self True = Inl e"
  proof (cases "to_dict encode int_of_str self False")
    case (Inl e)
    then show ?thesis using to_dict_error_mono by blast
  next
    case (Inr d)
    then show ?thesis using step by blast
  qed
  then show ?thesis using b step by blast
qed


theorem to_dict_bbox_all_zero_witness:
  "mask_bbox (mask (example_flake zero_mask 7 7)) = Inl IndexError \<and>
   to_dict (\<lambda>m. Inr ()) (\<lambda>s. Some 1) (example_flake zero_mask 7 7) True = Inl IndexError"
proof -
  have z: "\<forall>i<shape0 (mask (example_flake zero_mask 7 7)).
             \<forall>j<shape1 (mask (example_flake zero_mask 7 7)).
               \<not> item (mask (example_flake zero_mask 7 7)) i j"
    by (simp add: example_flake_def Flake_init_def zero_mask_def)
  have "\<exists>d. to_dict (\<lambda>m. Inr ()) (\<lambda>s. Some (1::int)) (example_flake zero_mask 7 7) False = Inr d"
    by (simp add: to_dict_def example_flake_def Flake_init_def tuple_get_def)
  then show ?thesis
    using to_dict_bbox_all_zero[OF z, of "\<lambda>m. Inr ()" "\<lambda>s. Some 1"] by blast
qed

text \<open>
  C5.  For a flake whose mask has a true entry, \<open>to_dict(return_bbox=True)\<close> adds to the
  dictionary the box \<open>[cmin, rmin, w, h]\<close> with \<open>w = cmax - cmin\<close> and
  \<open>h = rmax - rmin\<close>, where every true entry lies in the rows \<open>rmin..rmin + h\<close> and the
  columns \<open>cmin..cmin + w\<close>, and each of the four border lines of that rectangle holds a
  true entry: it is the smallest enclosing rectangle, given by its first row and
  column and the spans to its last ones.
\<close>

theorem to_dict_bbox_minimal:
  assumes "i0 < shape0 (mask self)" "j0 < shape1 (mask self)" "item (mask self) i0 j0"
    and "to_dict encode int_of_str self False = Inr d"
  shows "\<exists>cmin rmin w h.
           to_dict encode int_of_str self True =
             Inr (d\<lparr>d_bbox := Some [int cmin, int rmin, int w, int h]\<rparr>) \<and>
           rmin + h < shape0 (mask self) \<and> cmin + w < shape1 (mask self) \<and>
           (\<exists>j<shape1 (mask self). item (mask self) rmin j) \<and>
           (\<exists>j<shape1 (mask self). item (mask self) (rmin + h) j) \<and>
           (\<exists>i<shape0 (mask self). item (mask self) i cmin) \<and>
           (\<exists>i<shape0 (mask self). item (mask self) i (cmin + w)) \<and>
           (\<forall>i<shape0 (mask self). \<forall>j<shape1 (mask self). item (mask self) i j \<longrightarrow>
              rmin \<le> i \<and> i \<le> rmin + h \<and> cmin \<le> j \<and> j \<le> cmin + w)"
proof -
  let ?m = "mask self"
  from mask_bbox_some[OF assms(1,2,3)]
  obtain rmin rmax cmin cmax where
    b: "mask_bbox ?m = Inr [int cmin, int rmin, int cmax - int cmin, int rmax - int rmin]"
    and le: "rmin \<le> rmax" "rmax < shape0 ?m" "cmin \<le> cmax" "cmax < shape1 ?m"
    and occ: "\<exists>j<shape1 ?m. item ?m rmin j" "\<exists>j<shape1 ?m. item ?m rmax j"
      "\<exists>i<shape0 ?m. item ?m i cmin" "\<exists>i<shape0 ?m. item ?m i cmax"
    and bnd: "\<forall>i<shape0 ?m. \<forall>j<shape1 ?m. item ?m i j \<longrightarrow>
              rmin \<le> i \<and> i \<le> rmax \<and> cmin \<le> j \<and> j \<le> cmax"
    by blast
  define w where "w = cmax - cmin"
  define h where "h = rmax - rmin"
  have wh: "cmin + w = cmax" "rmin + h = rmax" "int cmax - int cmin = int w"
    "int rmax - int rmin = int h"
    using le by (simp_all add: w_def h_def)
  have "to_dict encode int_of_str self True =
          Inr (d\<lparr>d_bbox := Some [int cmin, int rmin, int w, int h]\<rparr>)"
    using to_dict_bbox_step[OF assms(4)] b wh by simp
  then show ?thesis
    using le occ bnd unfolding wh(1,2)[symmetric] by blast
qed


theorem to_dict_bbox_minimal_witness:
  "\<exists>d. to_dict (\<lambda>m. Inr ()) (\<lambda>s. Some 1) (example_flake example_mask 7 7) True = Inr d \<and>
        d_bbox d = Some [1, 1, 2, 1]"
proof -
  let ?f = "example_flake example_mask 7 7"
  have m: "mask ?f = example_mask" by (simp add: example_flake_def Flake_init_def)
  have h: "1 < shape0 (mask ?f)" "1 < shape1 (mask ?f)" "item (mask ?f) 1 1"
    unfolding m by (simp_all add: example_mask_def)
  obtain d where d: "to_dict (\<lambda>m. Inr ()) (\<lambda>s. Some (1::int)) ?f False = Inr d"
    by (simp add: to_dict_def example_flake_def Flake_init_def tuple_get_def)
  from to_dict_bbox_minimal[OF h d]
  obtain cmin rmin w h where
    t: "to_dict (\<lambda>m. Inr ()) (\<lambda>s. Some 1) ?f True =
          Inr (d\<lparr>d_bbox := Some [int cmin, int rmin, int w, int h]\<rparr>)"
    and r: "\<exists>j<shape1 (mask ?f). item (mask ?f) rmin j"
      "\<exists>j<shape1 (mask ?f). item (mask ?f) (rmin + h) j"
    and c: "\<exists>i<shape0 (mask ?f). item (mask ?f) i cmin"
      "\<exists>i<shape0 (mask ?f). item (mask ?f) i (cmin + w)"
    and b: "\<forall>i<shape0 (mask ?f). \<forall>j<shape1 (mask ?f). item (mask ?f) i j \<longrightarrow>
              rmin \<le> i \<and> i \<le> rmin + h \<and> cmin \<le> j \<and> j \<le> cmin + w"
    by blast
  have b1: "rmin \<le> 1 \<and> 1 \<le> rmin + h \<and> cmin \<le> 1 \<and> 1 \<le> cmin + w"
    using b[rule_format, of 1 1] unfolding m by (simp add: example_mask_def)
  have b2: "rmin \<le> 2 \<and> 2 \<le> rmin + h \<and> cmin \<le> 3 \<and> 3 \<le> cmin + w"
    using b[rule_format, of 2 3] unfolding m by (simp add: example_mask_def)
  have "rmin = 1 \<or> rmin = 2" "rmin + h = 1 \<or> rmin + h = 2"
    using r unfolding m by (auto simp: example_mask_def)
  then have rh: "rmin = 1" "h = 1" using b1 b2 by auto
  have "cmin = 1 \<or> cmin = 3" "cmin + w = 1 \<or> cmin + w = 3"
    using c unfolding m by (auto simp: example_mask_def)
  then have cw: "cmin = 1" "w = 2" using b1 b2 by auto
  show ?thesis using t rh cw by simp
qed

section \<open>The evaluation parameters\<close>

lemma conversion_floor_100: "py_int (100 * conversion_factor) = 676"
proof -
  have "\<lfloor>100 * conversion_factor\<rfloor> = 676"
    unfolding conversion_factor_def by (rule floor_unique) (simp_all add: power2_eq_square)
  then show ?thesis by (simp add: py_int_def conversion_factor_def)
qed

lemma conversion_floor_200: "py_int (200 * conversion_factor) = 1353"
proof -
  have "\<lfloor>200 * conversion_factor\<rfloor> = 1353"
    unfolding conversion_factor_def by (rule floor_unique) (simp_all add: power2_eq_square)
  then show ?thesis by (simp add: py_int_def conversion_factor_def)
qed

lemma conversion_floor_400: "py_int (400 * conversion_factor) = 2707"
proof -
  have "\<lfloor>400 * conversion_factor\<rfloor> = 2707"
    unfolding conversion_factor_def by (rule floor_unique) (simp_all add: power2_eq_square)
  then show ?thesis by (simp add: py_int_def conversion_factor_def)
qed


text \<open>
  C6.  \<open>setDetParams\<close> defines five area ranges, labelled \<open>all\<close>, \<open>0-100\<close>,
  \<open>100-200\<close>, \<open>200-400\<close> and \<open>400-inf\<close>.  Their bounds are the bounds 100, 200 and 400
  in square nanometres times \<open>1 / 0.3844 ^ 2\<close>, truncated to an integer (676, 1353 and
  2707 pixels), and the ranges \<open>all\<close> and \<open>400-inf\<close> end at \<open>1e10\<close>.
\<close>

theorem setDetParams_area_buckets:
  "areaRngLbl (setDetParams p) = [''all'', ''0-100'', ''100-200'', ''200-400'', ''400-inf''] \<and>
   length (areaRng (setDetParams p)) = 5 \<and>
   areaRng (setDetParams p) =
     [ (0, 10 ^ 10),
       (0, of_int (py_int (100 * (1 / 0.3844 ^ 2)))),
       (of_int (py_int (100 * (1 / 0.3844 ^ 2))), of_int (py_int (200 * (1 / 0.3844 ^ 2)))),
       (of_int (py_int (200 * (1 / 0.3844 ^ 2))), of_int (py_int (400 * (1 / 0.3844 ^ 2)))),
       (of_int (py_int (400 * (1 / 0.3844 ^ 2))), 10 ^ 10) ] \<and>
   areaRng (setDetParams p) =
     [(0, 10000000000), (0, 676), (676, 1353), (1353, 2707), (2707, 10000000000)]"
proof -
  have a: "areaRng (setDetParams p) =
     [ (0, 10 ^ 10),
       (0, of_int (py_int (100 * conversion_factor))),
       (of_int (py_int (100 * conversion_factor)), of_int (py_int (200 * conversion_factor))),
       (of_int (py_int (200 * conversion_factor)), of_int (py_int (400 * conversion_factor))),
       (of_int (py_int (400 * conversion_factor)), 10 ^ 10) ]"
    by (simp add: setDetParams_def)
  have l: "areaRngLbl (setDetParams p) = [''all'', ''0-100'', ''100-200'', ''200-400'', ''400-inf'']"
    by (simp add: setDetParams_def)
  have n: "areaRng (setDetParams p) =
     [(0, 10000000000), (0, 676), (676, 1353), (1353, 2707), (2707, 10000000000)]"
    unfolding a conversion_floor_100 conversion_floor_200 conversion_floor_400 by simp
  have len: "length (areaRng (setDetParams p)) = 5" unfolding n by simp
  show ?thesis
    using l len n a[unfolded conversion_factor_def] by blast
qed


section \<open>Keypoint evaluation\<close>

lemma FlakeParams_init_keypoints: "FlakeParams_init ''keypoints'' = Inl AttributeError"
  by (simp add: FlakeParams_init_def)

lemma FlakeCOCOeval_init_keypoints:
  "FlakeCOCOeval_init gt dt ''keypoints'' = Inl AttributeError"
  by (simp add: FlakeCOCOeval_init_def FlakeParams_init_keypoints)

lemma evaluate_predictions_on_coco_keypoints:
  "\<exists>e. evaluate_predictions_on_coco acc gt rs ''keypoints'' k ids md = Inl e"
  by (auto simp: evaluate_predictions_on_coco_def FlakeCOCOeval_init_keypoints Let_def
      split: sum.splits)

lemma derive_coco_results_keypoints:
  "derive_coco_results tr ce ''keypoints'' names = (Inl KeyError, tr)"
  by (simp add: derive_coco_results_def metric_names_def)


text \<open>
  C10.  \<open>FlakeParams("keypoints")\<close> raises (\<open>setKpParams\<close> does not exist), so does
  \<open>FlakeCOCOeval\<close> for that type, and so does \<open>_evaluate_predictions_on_coco\<close>
  whatever its other arguments are.  The assertion of \<open>_eval_predictions\<close> lets the
  task \<open>keypoints\<close> pass, and the loop over the tasks then raises at it: from the engine
  when there are results, from the lookup of the metric names when there are none.
\<close>

theorem keypoints_always_raises:
  "FlakeParams_init ''keypoints'' = Inl AttributeError \<and>
   FlakeCOCOeval_init gt dt ''keypoints'' = Inl AttributeError \<and>
   (\<exists>e. evaluate_predictions_on_coco acc gt' rs ''keypoints'' k ids md = Inl e) \<and>
   ''keypoints'' \<in> set [''bbox'', ''segm'', ''keypoints''] \<and>
   (\<exists>e. fst (eval_tasks acc self rs ids (''keypoints'' # rest)) = Inl e)"
proof -
  have main: "\<exists>e. fst (eval_tasks acc self rs ids (''keypoints'' # rest)) = Inl e"
  proof (cases "0 < length rs")
    case True
    show ?thesis
    proof (cases "kpt_oks_sigmas self")
      case None
      then show ?thesis using True by (simp add: Let_def)
    next
      case (Some sig)
      obtain e where "evaluate_predictions_on_coco acc (coco_api self) rs ''keypoints''
          (Some sig) ids (Some (max_dets_per_image self)) = Inl e"
        using evaluate_predictions_on_coco_keypoints by blast
      then show ?thesis using True Some by (simp add: Let_def)
    qed
  next
    case False
    show ?thesis using False by (simp add: Let_def derive_coco_results_keypoints)
  qed
  then show ?thesis
    by (intro conjI FlakeParams_init_keypoints FlakeCOCOeval_init_keypoints
        evaluate_predictions_on_coco_keypoints) simp_all
qed

section \<open>The evaluator without predictions\<close>

lemma example_evaluator_init:
  "FlakeCOCOEvaluator_init (\<lambda>file. Inr (example_api False)) example_metadata ''flakes''
     TasksNone dst dir None [] = Inr ((example_evaluator dst dir)\<lparr>predictions := None\<rparr>)"
  by (simp add: FlakeCOCOEvaluator_init_def example_evaluator_def example_metadata_def
      example_api_def Let_def)

lemma example_evaluator_reset:
  "reset ((example_evaluator dst dir)\<lparr>predictions := None\<rparr>) = example_evaluator dst dir"
  by (simp add: reset_def example_evaluator_def)

text \<open>
  C2, as the code has it.  When no process has accumulated a prediction (the list of
  this evaluator is empty and, in a distributed evaluation, so are the lists that
  \<open>gather\<close> returns), \<open>evaluate\<close> returns the empty mapping and raises nothing.  It
  logs the warning, except in a process other than the main one of a distributed
  evaluation, which returns before the list is looked at and logs nothing.
\<close>

theorem evaluate_no_predictions:
  assumes "predictions self = Some []"
    and "distributed self \<longrightarrow> concat (gather comm' []) = []"
  shows "evaluate comm' accumulate box_ar self img_ids =
           (Inr [],
            if distributed self \<and> \<not> is_main_process comm' then self
            else log_to Warning ''[COCOEvaluator] Did not receive valid predictions.'' self)"
  using assms by (simp add: evaluate_def Let_def)

text \<open>
  The claim as stated fails in a distributed evaluation (the default of the constructor)
  on a process that is not the main one: the mapping is empty and nothing is logged.
\<close>

theorem evaluate_no_predictions_witness:
  "evaluate \<lparr>gather = (\<lambda>own. [own]), is_main_process = True\<rparr>
       (\<lambda>ce. Inl (Exception [])) (\<lambda>ps area limit. Inl (Exception []))
       (example_evaluator False None) None =
     (Inr [],
      log_to Warning ''[COCOEvaluator] Did not receive valid predictions.''
        (example_evaluator False None))"
proof -
  have p: "predictions (example_evaluator False None) = Some []"
    and d: "distributed (example_evaluator False None) \<longrightarrow>
            concat (gather \<lparr>gather = (\<lambda>own. [own]), is_main_process = True\<rparr> []) = []"
    by (simp_all add: example_evaluator_def)
  from evaluate_no_predictions[OF p d]
  show ?thesis by (simp add: example_evaluator_def)
qed

theorem evaluate_no_predictions_counterexample:
  "FlakeCOCOEvaluator_init (\<lambda>file. Inr (example_api False)) example_metadata ''flakes''
       TasksNone True None None [] = Inr ((example_evaluator True None)\<lparr>predictions := None\<rparr>) \<and>
   reset ((example_evaluator True None)\<lparr>predictions := None\<rparr>) = example_evaluator True None \<and>
   predictions (example_evaluator True None) = Some [] \<and>
   fst (evaluate \<lparr>gather = (\<lambda>own. []), is_main_process = False\<rparr>
          (\<lambda>ce. Inl (Exception [])) (\<lambda>ps area limit. Inl (Exception []))
          (example_evaluator True None) None) = Inr [] \<and>
   trace (snd (evaluate \<lparr>gather = (\<lambda>own. []), is_main_process = False\<rparr>
          (\<lambda>ce. Inl (Exception [])) (\<lambda>ps area limit. Inl (Exception []))
          (example_evaluator True None) None)) = []"
proof -
  have e: "evaluate \<lparr>gather = (\<lambda>own. []), is_main_process = False\<rparr>
          (\<lambda>ce. Inl (Exception [])) (\<lambda>ps area limit. Inl (Exception []))
          (example_evaluator True None) None = (Inr [], example_evaluator True None)"
    by (simp add: evaluate_def example_evaluator_def)
  show ?thesis
    unfolding e by (simp add: example_evaluator_init example_evaluator_reset)
      (simp add: example_evaluator_def)
qed

section \<open>The evaluator without annotations\<close>




section \<open>Buckets without valid entries\<close>

lemma sequence_Inr_eq: "sequence xs = Inr vs \<Longrightarrow> xs = map Inr vs"
  by (induction xs arbitrary: vs) (auto split: sum.splits)

lemma map_of_dict_update_all:
  "map_of (dict_update_all kvs d) = map_of d ++ map_of (rev kvs)"
proof (induction kvs arbitrary: d)
  case Nil
  then show ?case by (simp add: dict_update_all_def)
next
  case (Cons kv kvs)
  obtain k v where kv: "kv = (k, v)" by (cases kv)
  have "map_of (dict_update_all (kv # kvs) d) = map_of (dict_update_all kvs (AList.update k v d))"
    by (simp add: dict_update_all_def kv)
  also have "\<dots> = map_of (AList.update k v d) ++ map_of (rev kvs)"
    by (rule Cons.IH)
  also have "\<dots> = map_of d ++ map_of (rev (kv # kvs))"
    by (simp add: update_conv' kv map_add_upd_left fun_eq_iff map_add_def split: option.splits)
  finally show ?case .
qed

lemma summarize_one_no_valid:
  assumes "summarize_selection p ev ap iouThr area md = Inr s"
    and "\<forall>x\<in>set s. \<not> - 1 < x"
  shows "summarize_one p ev ap iouThr area md = Inr (- 1)"
proof -
  have "filter (\<lambda>x. - 1 < x) s = []" using assms(2) by (simp add: filter_empty_conv)
  then show ?thesis using assms(1) by (simp add: summarize_one_def)
qed

lemma length_summarizeDets_calls: "length summarizeDets_calls = 30"
  by (simp add: summarizeDets_calls_def)

lemma summarizeDets_nth:
  assumes "summarizeDets p ev = Inr st" "idx < 30" "summarizeDets_calls ! idx = (ap, iouThr, area)"
  shows "length st = 30" "summarize_one p ev ap iouThr area (maxDets p ! 2) = Inr (st ! idx)"
proof -
  let ?f = "\<lambda>(ap, iouThr, areaRng'). summarize_one p ev ap iouThr areaRng' (maxDets p ! 2)"
  have "sequence (map ?f summarizeDets_calls) = Inr st"
    using assms(1) by (simp add: summarizeDets_def split: if_splits)
  then have eq: "map ?f summarizeDets_calls = map Inr st" by (rule sequence_Inr_eq)
  then have "length (map ?f summarizeDets_calls) = length (map Inr st :: (py_error + real) list)"
    by simp
  then show len: "length st = 30" by (simp add: length_summarizeDets_calls)
  have "map ?f summarizeDets_calls ! idx = (map Inr st :: (py_error + real) list) ! idx"
    using eq by simp
  then show "summarize_one p ev ap iouThr area (maxDets p ! 2) = Inr (st ! idx)"
    using assms(2,3) len by (simp add: length_summarizeDets_calls)
qed

lemma standard_value_negative:
  assumes "standard_value st idx = Inr v" "st ! idx < 0"
  shows "v = NaN"
  using assms by (auto simp: standard_value_def split: if_splits)

lemma standard_results_lookup:
  assumes "standard_results st ms = Inr res" "distinct ms" "idx < length ms"
  shows "\<exists>v. standard_value st idx = Inr v \<and> map_of res (ms ! idx) = Some v"
proof -
  let ?g = "\<lambda>(idx, metric). case standard_value st idx of
                              Inl e \<Rightarrow> Inl e
                            | Inr v \<Rightarrow> Inr (metric, v)"
  obtain kvs where seq: "sequence (map ?g (enumerate 0 ms)) = Inr kvs"
    and res: "res = dict_update_all kvs []"
    using assms(1) by (auto simp: standard_results_def split: sum.splits)
  from seq have eq: "map ?g (enumerate 0 ms) = map Inr kvs" by (rule sequence_Inr_eq)
  then have "length (map ?g (enumerate 0 ms)) = length (map Inr kvs :: (py_error + string \<times> pyfloat) list)"
    by simp
  then have len: "length kvs = length ms" by simp
  have nth: "?g (i, ms ! i) = Inr (kvs ! i)" if "i < length ms" for i
  proof -
    have "map ?g (enumerate 0 ms) ! i = (map Inr kvs :: (py_error + string \<times> pyfloat) list) ! i"
      using eq by simp
    then show ?thesis using that len by (simp add: nth_enumerate_eq)
  qed
  have fst_nth: "fst (kvs ! i) = ms ! i" if "i < length ms" for i
    using nth[OF that] by (auto split: sum.splits intro: fst_eqD[symmetric] dest: sym)
  have keys: "map fst kvs = ms"
    by (rule nth_equalityI) (simp_all add: len fst_nth)
  obtain v where v: "standard_value st idx = Inr v" "kvs ! idx = (ms ! idx, v)"
    using nth[OF assms(3)] by (auto split: sum.splits)
  have "(ms ! idx, v) \<in> set (rev kvs)"
    using v(2) assms(3) len by (metis nth_mem set_rev)
  moreover have "distinct (map fst (rev kvs))"
    using keys assms(2) by (simp add: rev_map[symmetric])
  ultimately have "map_of (rev kvs) (ms ! idx) = Some v" by (rule map_of_is_SomeI[rotated])
  then have "map_of res (ms ! idx) = Some v"
    by (simp add: res map_of_dict_update_all)
  then show ?thesis using v(1) by blast
qed

lemma metric_names_distinct:
  assumes "metric_names iou_type = Inr ms"
  shows "distinct ms"
  using assms by (auto simp: metric_names_def split: if_splits)

lemma metric_names_no_underscore:
  assumes "metric_names iou_type = Inr ms" "m \<in> set ms"
  shows "CHR ''_'' \<notin> set m"
  using assms by (auto simp: metric_names_def split: if_splits)

lemma metric_names_length:
  assumes "metric_names iou_type = Inr ms"
  shows "length ms \<le> 30"
  using assms by (auto simp: metric_names_def split: if_splits)


lemma str_int_50: "str_int (py_int 50) = ''50''"
  by (simp add: str_int_def py_int_def str_nat.simps)

lemma split_at_underscore:
  assumes "CHR ''_'' \<notin> set p1" "CHR ''_'' \<notin> set p2" "p1 @ CHR ''_'' # c1 = p2 @ CHR ''_'' # c2"
  shows "p1 = p2 \<and> c1 = c2"
  using assms
proof (induction p1 arbitrary: p2)
  case Nil
  then show ?case by (cases p2) auto
next
  case (Cons a p1)
  then show ?case by (cases p2) auto
qed

lemma result_key_prefix:
  "result_key mode iouThr area_idx area_label class_name =
     key_prefix mode iouThr area_idx area_label @ CHR ''_'' # class_name"
  by (simp add: result_key_def key_prefix_def)

lemma lt5: "(ai::nat) < 5 \<longleftrightarrow> ai = 0 \<or> ai = 1 \<or> ai = 2 \<or> ai = 3 \<or> ai = 4"
  by auto

lemma key_prefix_no_underscore:
  assumes "mode \<in> {''AP'', ''AR''}" "thr \<in> {Some 0.5, None}" "ai < 5"
  shows "CHR ''_'' \<notin> set (key_prefix mode thr ai (labels5 ! ai))"
  using assms by (auto simp: key_prefix_def labels5_def str_int_50 lt5)

lemma key_prefix_inj:
  assumes "mode \<in> {''AP'', ''AR''}" "thr \<in> {Some 0.5, None}" "ai < 5"
    and "mode' \<in> {''AP'', ''AR''}" "thr' \<in> {Some 0.5, None}" "ai' < 5"
    and "key_prefix mode thr ai (labels5 ! ai) = key_prefix mode' thr' ai' (labels5 ! ai')"
  shows "mode = mode' \<and> thr = thr' \<and> ai = ai'"
proof -
  let ?rest = "\<lambda>thr ai. (case thr of None \<Rightarrow> [] | Some t \<Rightarrow> str_int (py_int (t * 100))) @
                       (if 0 < ai then '','' @ labels5 ! ai else [])"
  have len: "length mode = length mode'" using assms(1,4) by auto
  have "mode @ ?rest thr ai = mode' @ ?rest thr' ai'"
    using assms(7) by (simp add: key_prefix_def)
  then have "mode = mode' \<and> ?rest thr ai = ?rest thr' ai'"
    using len by (simp del: append_assoc)
  then have m: "mode = mode'" and r: "?rest thr ai = ?rest thr' ai'"
    by blast+
  have "thr = thr' \<and> ai = ai'"
    using r assms(2,3,5,6) by (auto simp: labels5_def str_int_50 lt5)
  then show ?thesis using m by simp
qed

lemma result_key_inj:
  assumes "mode \<in> {''AP'', ''AR''}" "thr \<in> {Some 0.5, None}" "ai < 5"
    and "mode' \<in> {''AP'', ''AR''}" "thr' \<in> {Some 0.5, None}" "ai' < 5"
    and "result_key mode thr ai (labels5 ! ai) cn = result_key mode' thr' ai' (labels5 ! ai') cn'"
  shows "mode = mode' \<and> thr = thr' \<and> ai = ai' \<and> cn = cn'"
proof -
  have "key_prefix mode thr ai (labels5 ! ai) = key_prefix mode' thr' ai' (labels5 ! ai') \<and> cn = cn'"
    using assms(7) unfolding result_key_prefix
    by (intro split_at_underscore key_prefix_no_underscore assms)
  then show ?thesis using key_prefix_inj[OF assms(1-6)] by blast
qed

lemma result_key_has_underscore:
  "CHR ''_'' \<in> set (result_key mode thr ai al cn)"
  by (simp add: result_key_def)

lemma in_set_concat_map: "x \<in> set (concat (map f xs)) \<longleftrightarrow> (\<exists>y\<in>set xs. x \<in> set (f y))"
  by auto

lemma per_class_entries_mem:
  "x \<in> set (per_class_entries p (Some ev) names) \<longleftrightarrow>
     (\<exists>mode\<in>set [''AP'', ''AR'']. \<exists>a\<in>set (enumerate 0 (areaRngLbl p)).
        \<exists>thr\<in>set [Some 0.5, None]. \<exists>c\<in>set (enumerate 0 names).
          x = (case per_class_value p ev mode (fst a) thr (fst c) of
                 Inl e \<Rightarrow> Inl e
               | Inr v \<Rightarrow> Inr (result_key mode thr (fst a) (snd a) (snd c), v)))"
  unfolding per_class_entries_def
  by (simp only: in_set_concat_map set_map image_iff case_prod_beta option.case)

lemma per_class_entries_intro:
  assumes "mode \<in> {''AP'', ''AR''}" "ai < length (areaRngLbl p)" "thr \<in> {Some 0.5, None}"
    "ci < length names" "per_class_value p ev mode ai thr ci = Inr v"
  shows "Inr (result_key mode thr ai (areaRngLbl p ! ai) (names ! ci), v)
           \<in> set (per_class_entries p (Some ev) names)"
proof -
  have a: "(ai, areaRngLbl p ! ai) \<in> set (enumerate 0 (areaRngLbl p))"
    using assms(2) by (simp add: in_set_enumerate_eq)
  have c: "(ci, names ! ci) \<in> set (enumerate 0 names)"
    using assms(4) by (simp add: in_set_enumerate_eq)
  show ?thesis
    unfolding per_class_entries_mem
    apply (rule bexI[where x = mode])
     apply (rule bexI[OF _ a])
     apply (rule bexI[where x = thr])
      apply (rule bexI[OF _ c])
      apply (simp add: assms(5))
    using assms(1,3) apply simp_all
    done
qed

lemma per_class_entries_elim:
  assumes "Inr (k, v) \<in> set (per_class_entries p (Some ev) names)"
  shows "\<exists>mode ai thr ci. mode \<in> {''AP'', ''AR''} \<and> ai < length (areaRngLbl p) \<and>
        thr \<in> {Some 0.5, None} \<and> ci < length names \<and>
        k = result_key mode thr ai (areaRngLbl p ! ai) (names ! ci) \<and>
        per_class_value p ev mode ai thr ci = Inr v"
proof -
  let ?X = "\<lambda>mode a thr c. case per_class_value p ev mode (fst a) thr (fst c) of
                 Inl e \<Rightarrow> Inl e
               | Inr v \<Rightarrow> Inr (result_key mode thr (fst a) (snd a) (snd c), v)"
  from assms have "\<exists>mode\<in>set [''AP'', ''AR'']. \<exists>a\<in>set (enumerate 0 (areaRngLbl p)).
        \<exists>thr\<in>set [Some 0.5, None]. \<exists>c\<in>set (enumerate 0 names). Inr (k, v) = ?X mode a thr c"
    by (simp only: per_class_entries_mem)
  then obtain mode where m0: "mode \<in> set [''AP'', ''AR'']"
    and r1: "\<exists>a\<in>set (enumerate 0 (areaRngLbl p)).
        \<exists>thr\<in>set [Some 0.5, None]. \<exists>c\<in>set (enumerate 0 names). Inr (k, v) = ?X mode a thr c"
    by (rule bexE)
  from r1 obtain a where a: "a \<in> set (enumerate 0 (areaRngLbl p))"
    and r2: "\<exists>thr\<in>set [Some 0.5, None]. \<exists>c\<in>set (enumerate 0 names). Inr (k, v) = ?X mode a thr c"
    by (rule bexE)
  from r2 obtain thr where t0: "thr \<in> set [Some 0.5, None]"
    and r3: "\<exists>c\<in>set (enumerate 0 names). Inr (k, v) = ?X mode a thr c"
    by (rule bexE)
  from r3 obtain c where c: "c \<in> set (enumerate 0 names)"
    and x: "Inr (k, v) = ?X mode a thr c"
    by (rule bexE)
  have m: "mode \<in> {''AP'', ''AR''}" using m0 by simp
  have t: "thr \<in> {Some 0.5, None}" using t0 by simp
  have a': "fst a < length (areaRngLbl p)" "snd a = areaRngLbl p ! fst a"
    using a by (auto simp: in_set_enumerate_eq)
  have c': "fst c < length names" "snd c = names ! fst c"
    using c by (auto simp: in_set_enumerate_eq)
  have "k = result_key mode thr (fst a) (areaRngLbl p ! fst a) (names ! fst c) \<and>
        per_class_value p ev mode (fst a) thr (fst c) = Inr v"
    using x a'(2) c'(2) by (auto split: sum.splits)
  then show ?thesis using m t a'(1) c'(1) by blast
qed

lemma FlakeParams_init_labels:
  assumes "FlakeParams_init iou_type = Inr p"
  shows "areaRngLbl p = labels5"
  using assms by (auto simp: FlakeParams_init_def setDetParams_def labels5_def split: if_splits)

lemma FlakeCOCOeval_init_labels:
  assumes "FlakeCOCOeval_init gt dt iou_type = Inr ce"
  shows "areaRngLbl (params ce) = labels5"
proof -
  obtain p where p: "FlakeParams_init iou_type = Inr p"
    using assms by (auto simp: FlakeCOCOeval_init_def split: sum.splits)
  then have "areaRngLbl p = labels5" by (rule FlakeParams_init_labels)
  then show ?thesis
    using assms p by (auto simp: FlakeCOCOeval_init_def split: option.splits)
qed

lemma summarize_facts:
  assumes "summarize ce0 = Inr ce"
  shows "\<exists>ev. eval ce = Some ev \<and> summarizeDets (params ce) ev = Inr (stats ce)"
    and "params ce = params ce0"
  using assms by (auto simp: summarize_def split: option.splits if_splits sum.splits)

lemma pipeline_facts:
  assumes "evaluate_predictions_on_coco acc gt rs iou_type k ids md = Inr ce"
  shows "\<exists>ev. eval ce = Some ev \<and> summarizeDets (params ce) ev = Inr (stats ce)"
    and "areaRngLbl (params ce) = labels5"
proof -
  from assms obtain dt ce1 where
    i: "FlakeCOCOeval_init (Some gt) (Some dt) iou_type = Inr ce1"
    by (auto simp: evaluate_predictions_on_coco_def Let_def split: sum.splits if_splits)
  have il: "areaRngLbl (params ce1) = labels5" by (rule FlakeCOCOeval_init_labels[OF i])
  from assms have "\<exists>ce2. summarize ce2 = Inr ce \<and> areaRngLbl (params ce2) = labels5"
    unfolding evaluate_predictions_on_coco_def Let_def
    by (auto split: sum.splits if_splits option.splits dest!: FlakeCOCOeval_init_labels)
  then obtain ce2 where s: "summarize ce2 = Inr ce" and l: "areaRngLbl (params ce2) = labels5"
    by blast
  show "\<exists>ev. eval ce = Some ev \<and> summarizeDets (params ce) ev = Inr (stats ce)"
    using s by (rule summarize_facts(1))
  have "areaRngLbl (params ce) = areaRngLbl (params ce2)"
    using summarize_facts(2)[OF s] by simp
  then show "areaRngLbl (params ce) = labels5"
    using l by simp
qed


lemma derive_coco_results_Inr:
  assumes "fst (derive_coco_results tr (Some ce) iou_type class_names) = Inr res"
    and "metric_names iou_type = Inr ms"
  shows "\<exists>res0. standard_results (stats ce) ms = Inr res0 \<and>
           (if (case class_names of None \<Rightarrow> True | Some names \<Rightarrow> length names \<le> 1)
            then res = res0
            else \<exists>kvs. sequence (per_class_entries (params ce) (eval ce) (the class_names)) = Inr kvs \<and>
                       res = dict_update_all kvs res0)"
  using assms
  by (auto simp: derive_coco_results_def Let_def split: sum.splits option.splits if_splits)

lemma per_class_value_no_valid:
  assumes "per_class_selection p ev mode ai thr ci = Inr s" "\<forall>x\<in>set s. \<not> - 1 < x"
  shows "per_class_value p ev mode ai thr ci = Inr NaN"
proof -
  have "filter (\<lambda>x. - 1 < x) s = []" using assms(2) by (simp add: filter_empty_conv)
  then show ?thesis using assms(1) by (simp add: per_class_value_def mul_f_def)
qed

lemma labels5_eq: "labels5 = [''all'', ''0-100'', ''100-200'', ''200-400'', ''400-inf'']"
  by (simp add: labels5_def)

text \<open>
  Without any result the engine is not run (\<open>coco_eval\<close> is \<open>None\<close>), and every
  metric of the table is not-a-number.
\<close>

lemma derive_coco_results_no_predictions:
  assumes "metric_names iou_type = Inr ms" "m \<in> set ms"
  shows "\<exists>res. fst (derive_coco_results tr None iou_type class_names) = Inr res \<and>
           map_of res m = Some NaN"
proof -
  let ?kvs = "map (\<lambda>metric. (metric, NaN)) ms"
  have "m \<in> fst ` set (rev ?kvs)" using assms(2) by force
  then obtain v where v: "map_of (rev ?kvs) m = Some v"
    by (metis domD dom_map_of_conv_image_fst)
  then have "(m, v) \<in> set ?kvs" by (metis map_of_SomeD set_rev)
  then have "v = NaN" by auto
  then have "map_of (dict_update_all ?kvs []) m = Some NaN"
    using v by (simp add: map_of_dict_update_all)
  then show ?thesis using assms(1) by (simp add: derive_coco_results_def)
qed

text \<open>
  C1.  Take the evaluation object that \<open>_evaluate_predictions_on_coco\<close> returns and the
  metrics that \<open>_derive_coco_results\<close> derives from it.  For every entry of the table
  of standard metrics: when none of the entries that \<open>_summarize\<close> selects for its
  combination of threshold and area range is greater than \<open>-1\<close>, the statistic is
  \<open>-1\<close> and the metric reported under its name is not-a-number.  For every
  per-category key (the class names being distinct): when none of the selected
  entries of its mode, area range, threshold and class is greater than \<open>-1\<close>, the
  value reported under the key is not-a-number.  Neither is ever 0.
\<close>

theorem no_valid_entries_reported_nan:
  assumes pipe: "evaluate_predictions_on_coco acc gt rs iou_type k ids md = Inr ce"
    and ev: "eval ce = Some ev"
    and der: "fst (derive_coco_results tr (Some ce) iou_type class_names) = Inr res"
    and ms: "metric_names iou_type = Inr ms"
  shows "(\<forall>idx<length ms. \<forall>ap thr area s.
            summarizeDets_calls ! idx = (ap, thr, area) \<longrightarrow>
            summarize_selection (params ce) ev ap thr area (maxDets (params ce) ! 2) = Inr s \<longrightarrow>
            (\<forall>x\<in>set s. \<not> - 1 < x) \<longrightarrow>
            stats ce ! idx = - 1 \<and> map_of res (ms ! idx) = Some NaN) \<and>
         (\<forall>names mode ai thr ci s.
            class_names = Some names \<longrightarrow> 1 < length names \<longrightarrow> distinct names \<longrightarrow>
            mode \<in> {''AP'', ''AR''} \<longrightarrow> ai < 5 \<longrightarrow> thr \<in> {Some 0.5, None} \<longrightarrow>
            ci < length names \<longrightarrow>
            per_class_selection (params ce) ev mode ai thr ci = Inr s \<longrightarrow>
            (\<forall>x\<in>set s. \<not> - 1 < x) \<longrightarrow>
            map_of res (result_key mode thr ai
                          ([''all'', ''0-100'', ''100-200'', ''200-400'', ''400-inf''] ! ai)
                          (names ! ci)) = Some NaN)"
proof -
  let ?p = "params ce"
  have sd: "summarizeDets ?p ev = Inr (stats ce)"
    using pipeline_facts(1)[OF pipe] ev by simp
  have lbl: "areaRngLbl ?p = labels5" by (rule pipeline_facts(2)[OF pipe])
  obtain res0 where res0: "standard_results (stats ce) ms = Inr res0"
    and shape: "if (case class_names of None \<Rightarrow> True | Some names \<Rightarrow> length names \<le> 1)
            then res = res0
            else \<exists>kvs. sequence (per_class_entries ?p (eval ce) (the class_names)) = Inr kvs \<and>
                       res = dict_update_all kvs res0"
    using derive_coco_results_Inr[OF der ms] by blast
  have dist: "distinct ms" using ms by (rule metric_names_distinct)

  have top: "stats ce ! idx = - 1 \<and> map_of res (ms ! idx) = Some NaN"
    if idx: "idx < length ms" and call: "summarizeDets_calls ! idx = (ap, thr, area)"
      and sel: "summarize_selection ?p ev ap thr area (maxDets ?p ! 2) = Inr s"
      and none: "\<forall>x\<in>set s. \<not> - 1 < x"
    for idx ap thr area s
  proof -
    have i30: "idx < 30" using idx metric_names_length[OF ms] by simp
    have "summarize_one ?p ev ap thr area (maxDets ?p ! 2) = Inr (stats ce ! idx)"
      using sd i30 call by (rule summarizeDets_nth(2))
    moreover have "summarize_one ?p ev ap thr area (maxDets ?p ! 2) = Inr (- 1)"
      using sel none by (rule summarize_one_no_valid)
    ultimately have st: "stats ce ! idx = - 1" by simp
    obtain v where v: "standard_value (stats ce) idx = Inr v" "map_of res0 (ms ! idx) = Some v"
      using standard_results_lookup[OF res0 dist idx] by blast
    have "v = NaN" using v(1) st by (intro standard_value_negative[of "stats ce" idx]) simp_all
    then have r0: "map_of res0 (ms ! idx) = Some NaN" using v(2) by simp
    have "map_of res (ms ! idx) = Some NaN"
    proof (cases "case class_names of None \<Rightarrow> True | Some names \<Rightarrow> length names \<le> 1")
      case True
      then show ?thesis using shape r0 by simp
    next
      case False
      then obtain kvs where
        seq: "sequence (per_class_entries ?p (eval ce) (the class_names)) = Inr kvs"
        and r: "res = dict_update_all kvs res0"
        using shape by auto
      have ent: "per_class_entries ?p (Some ev) (the class_names) = map Inr kvs"
        using sequence_Inr_eq[OF seq] ev by simp
      have "ms ! idx \<notin> fst ` set (rev kvs)"
      proof
        assume "ms ! idx \<in> fst ` set (rev kvs)"
        then obtain v' where "(ms ! idx, v') \<in> set kvs" by auto
        then have "Inr (ms ! idx, v') \<in> set (per_class_entries ?p (Some ev) (the class_names))"
          unfolding ent by simp
        from per_class_entries_elim[OF this]
        have "CHR ''_'' \<in> set (ms ! idx)"
          using result_key_has_underscore by metis
        moreover have "CHR ''_'' \<notin> set (ms ! idx)"
          using ms idx by (intro metric_names_no_underscore[of iou_type ms]) simp_all
        ultimately show False by simp
      qed
      then have "map_of (rev kvs) (ms ! idx) = None"
        by (simp add: map_of_eq_None_iff)
      then show ?thesis
        using r0 by (simp add: r map_of_dict_update_all map_add_def)
    qed
    then show ?thesis using st by simp
  qed

  have cls: "map_of res (result_key mode thr ai
                          ([''all'', ''0-100'', ''100-200'', ''200-400'', ''400-inf''] ! ai)
                          (names ! ci)) = Some NaN"
    if cn: "class_names = Some names" and n2: "1 < length names" and dn: "distinct names"
      and m: "mode \<in> {''AP'', ''AR''}" and a: "ai < 5" and t: "thr \<in> {Some 0.5, None}"
      and c: "ci < length names"
      and sel: "per_class_selection ?p ev mode ai thr ci = Inr s"
      and none: "\<forall>x\<in>set s. \<not> - 1 < x"
    for names mode ai thr ci s
  proof -
    let ?K = "result_key mode thr ai (labels5 ! ai) (names ! ci)"
    obtain kvs where
      seq: "sequence (per_class_entries ?p (eval ce) names) = Inr kvs"
      and r: "res = dict_update_all kvs res0"
      using shape cn n2 by auto
    have ent: "per_class_entries ?p (Some ev) names = map Inr kvs"
      using sequence_Inr_eq[OF seq] ev by simp
    have len5: "length labels5 = 5" by (simp add: labels5_def)
    have val: "per_class_value ?p ev mode ai thr ci = Inr NaN"
      using sel none by (rule per_class_value_no_valid)
    have "Inr (result_key mode thr ai (areaRngLbl ?p ! ai) (names ! ci), NaN)
            \<in> set (per_class_entries ?p (Some ev) names)"
      using m _ t c val by (rule per_class_entries_intro) (simp add: lbl len5 a)
    then have inK: "(?K, NaN) \<in> set kvs" unfolding ent lbl by auto
    then have "?K \<in> fst ` set (rev kvs)" by force
    then obtain v' where v': "map_of (rev kvs) ?K = Some v'"
      by (metis domD dom_map_of_conv_image_fst)
    then have "(?K, v') \<in> set kvs" by (metis map_of_SomeD set_rev)
    then have "Inr (?K, v') \<in> set (per_class_entries ?p (Some ev) names)"
      unfolding ent by simp
    from per_class_entries_elim[OF this] obtain mode' ai' thr' ci' where
      m': "mode' \<in> {''AP'', ''AR''}" and a': "ai' < 5" and t': "thr' \<in> {Some 0.5, None}"
      and c': "ci' < length names"
      and k': "?K = result_key mode' thr' ai' (labels5 ! ai') (names ! ci')"
      and val': "per_class_value ?p ev mode' ai' thr' ci' = Inr v'"
      unfolding lbl len5 by blast
    have "mode = mode' \<and> thr = thr' \<and> ai = ai' \<and> names ! ci = names ! ci'"
      using m t a m' t' a' k' by (rule result_key_inj)
    moreover then have "ci = ci'"
      using dn c c' by (simp add: nth_eq_iff_index_eq)
    ultimately have "v' = NaN" using val val' by simp
    then have "map_of res ?K = Some NaN"
      using v' by (simp add: r map_of_dict_update_all map_add_def)
    then show ?thesis by (simp add: labels5_eq)
  qed
  show ?thesis using top cls by blast
qed

lemma example_pipeline_ok: "\<not> isl example_pipeline"
  by code_simp

lemma example_derived_ok: "\<not> isl example_derived"
  by code_simp

lemma example_selection_top: "case summarize_selection (params (projr example_pipeline)) example_eval_data True (Some 0.5)
              ''0-100'' (maxDets (params (projr example_pipeline)) ! 2) of
        Inl e \<Rightarrow> False | Inr s \<Rightarrow> list_all (\<lambda>x. \<not> - 1 < x) s"
  by code_simp

lemma example_selection_class: "case per_class_selection (params (projr example_pipeline)) example_eval_data ''AP'' 1 (Some 0.5) 0 of
        Inl e \<Rightarrow> False | Inr s \<Rightarrow> list_all (\<lambda>x. \<not> - 1 < x) s"
  by code_simp

lemma example_pipeline_eval: "eval (projr example_pipeline) = Some example_eval_data"
  using example_pipeline_ok unfolding example_pipeline_def
  by (auto simp: evaluate_predictions_on_coco_def Let_def summarize_def split: sum.splits if_splits option.splits)


lemma segm_metric_1: "metric_names ''segm'' = Inr ms \<Longrightarrow> 1 < length ms \<and> ms ! 1 = ''AP50,0-100''"
  by (auto simp: metric_names_def)

lemma example_key: "result_key ''AP'' (Some 0.5) 1
     ([''all'', ''0-100'', ''100-200'', ''200-400'', ''400-inf''] ! 1) ([''1L'', ''2L''] ! 0) =
     ''AP50,0-100_1L''"
  by (simp add: result_key_def str_int_def py_int_def str_nat.simps)

theorem no_valid_entries_reported_nan_witness:
  "\<exists>ce res. example_pipeline = Inr ce \<and> example_derived = Inr res \<and> stats ce ! 1 = - 1 \<and>
      map_of res ''AP50,0-100'' = Some NaN \<and> map_of res ''AP50,0-100_1L'' = Some NaN"
proof -
  obtain ce where ce: "example_pipeline = Inr ce" using example_pipeline_ok by (metis sum.collapse(2))
  then have pr: "projr example_pipeline = ce" by (metis sum.sel(2))
  obtain res where res: "example_derived = Inr res" using example_derived_ok by (metis sum.collapse(2))
  have pipe: "evaluate_predictions_on_coco (\<lambda>ce. Inr example_eval_data) (example_api True)
       [example_result 1] ''segm'' (Some []) None None = Inr ce"
    using ce by (simp add: example_pipeline_def)
  have ev: "eval ce = Some example_eval_data" using example_pipeline_eval pr by simp
  have der: "fst (derive_coco_results [] (Some ce) ''segm'' (Some [''1L'', ''2L''])) = Inr res"
    using res pr by (simp add: example_derived_def)
  obtain ms where ms: "metric_names ''segm'' = Inr ms" by (simp add: metric_names_def)
  note main = no_valid_entries_reported_nan[OF pipe ev der ms]
  obtain s where s: "summarize_selection (params ce) example_eval_data True (Some 0.5)
              ''0-100'' (maxDets (params ce) ! 2) = Inr s" "\<forall>x\<in>set s. \<not> - 1 < x"
    using example_selection_top unfolding pr by (auto split: sum.splits simp: list_all_iff)
  have call: "summarizeDets_calls ! 1 = (True, Some 0.5, ''0-100'')"
    by (simp add: summarizeDets_calls_def)
  have top: "stats ce ! 1 = - 1 \<and> map_of res (ms ! 1) = Some NaN"
    using main segm_metric_1[OF ms] call s by blast
  obtain s' where s': "per_class_selection (params ce) example_eval_data ''AP'' 1 (Some 0.5) 0 = Inr s'"
    "\<forall>x\<in>set s'. \<not> - 1 < x"
    using example_selection_class unfolding pr by (auto split: sum.splits simp: list_all_iff)
  have "map_of res (result_key ''AP'' (Some 0.5) 1
     ([''all'', ''0-100'', ''100-200'', ''200-400'', ''400-inf''] ! 1) ([''1L'', ''2L''] ! 0)) = Some NaN"
  proof (rule main[THEN conjunct2, rule_format, of "[''1L'', ''2L'']" "''AP''" 1 "Some 0.5" 0 s'])
    show "per_class_selection (params ce) example_eval_data ''AP'' 1 (Some 0.5) 0 = Inr s'"
      by (rule s'(1))
    show "x \<in> set s' \<Longrightarrow> \<not> - 1 < x" for x using s'(2) by blast
  qed simp_all
  then have cls: "map_of res ''AP50,0-100_1L'' = Some NaN" unfolding example_key .
  have top': "stats ce ! 1 = - 1 \<and> map_of res ''AP50,0-100'' = Some NaN"
    using top segm_metric_1[OF ms] by simp
  show ?thesis using ce res top' cls by blast
qed

section \<open>The timing loop\<close>














end
